theory Spec2Isabelle
  imports Main
begin

section \<open>Python values, exceptions and effects\<close>

text \<open>
  The two source files are glue code over objects of other modules (tensors, network
  modules, data loaders). Such an object is kept opaque (\<open>Opaque\<close>); the values the
  glue code itself builds or takes apart are \<open>None\<close>, strings, sequences and dicts. A
  dict is an association list in insertion order, as Python iterates it.
\<close>

datatype 'o pyval =
    PyNone
  | Opaque 'o
  | PyStr string
  | PyTuple "'o pyval list"
  | PyDict "(string \<times> 'o pyval) list"

text \<open>
  An exception, by class and message; \<open>OtherException\<close> is any other class, with its name.
  The two files have no \<^verbatim>\<open>try\<close>: an exception raised by code outside them leaves the
  calling function as it is. \<open>External e\<close> is such an exception \<open>e\<close>, with its class and
  message, marked as coming out of a call; an exception without the mark was raised by a
  statement of the two files.
\<close>

datatype exn =
    AssertionError string
  | ValueError string
  | KeyError string
  | TypeError string
  | AttributeError string
  | OtherException string string
  | External exn

text \<open>Whether an exception is a ValueError, wherever it was raised.\<close>

fun is_ValueError :: "exn \<Rightarrow> bool" where
  "is_ValueError (ValueError msg) = True"
| "is_ValueError (External e) = is_ValueError e"
| "is_ValueError (AssertionError msg) = False"
| "is_ValueError (KeyError msg) = False"
| "is_ValueError (TypeError msg) = False"
| "is_ValueError (AttributeError msg) = False"
| "is_ValueError (OtherException cls msg) = False"

text \<open>
  A computation runs in a world \<open>'w\<close> (everything outside the two files that a call may
  read or change: module parameters, devices, files) and yields an exception or a value,
  the new world, and the events it emitted in order: logger messages and calls into code
  outside the two files. An exception keeps the world and the events reached so far.
\<close>

type_synonym ('w, 'ev, 'a) prog = "'w \<Rightarrow> (exn + 'a) \<times> 'w \<times> 'ev list"

definition py_return :: "'a \<Rightarrow> ('w, 'ev, 'a) prog" where
  "py_return a = (\<lambda>w. (Inr a, w, []))"

definition py_raise :: "exn \<Rightarrow> ('w, 'ev, 'a) prog" where
  "py_raise e = (\<lambda>w. (Inl e, w, []))"

definition py_bind :: "('w, 'ev, 'a) prog \<Rightarrow> ('a \<Rightarrow> ('w, 'ev, 'b) prog) \<Rightarrow> ('w, 'ev, 'b) prog" where
  "py_bind m f = (\<lambda>w.
     case m w of
       (Inl e, w1, evs) \<Rightarrow> (Inl e, w1, evs)
     | (Inr a, w1, evs) \<Rightarrow> (case f a w1 of (r, w2, evs') \<Rightarrow> (r, w2, evs @ evs')))"

text \<open>
  A call into code outside the two files: the event is emitted, then the callee runs. An
  exception the callee raises propagates, marked \<open>External\<close>.
\<close>

definition call :: "'ev \<Rightarrow> ('w \<Rightarrow> (exn + 'a) \<times> 'w) \<Rightarrow> ('w, 'ev, 'a) prog" where
  "call ev f = (\<lambda>w.
     case f w of
       (Inl e, w1) \<Rightarrow> (Inl (External e), w1, [ev])
     | (Inr a, w1) \<Rightarrow> (Inr a, w1, [ev]))"

definition emit :: "'ev \<Rightarrow> ('w, 'ev, unit) prog" where
  "emit ev = (\<lambda>w. (Inr (), w, [ev]))"

definition lift_result :: "exn + 'a \<Rightarrow> ('w, 'ev, 'a) prog" where
  "lift_result r = (case r of Inl e \<Rightarrow> py_raise e | Inr a \<Rightarrow> py_return a)"

subsection \<open>Iteration, unpacking, subscripts, method calls\<close>

text \<open>
  What an opaque object does under iteration and under a subscript is a parameter: the rows
  of a tensor, the batches of a data loader, or an exception.
\<close>

record 'o py_env =
  iter_opaque :: "'o \<Rightarrow> exn + 'o pyval list"
  getitem_opaque :: "'o \<Rightarrow> string \<Rightarrow> exn + 'o pyval"

text \<open>
  Iterating a value: a tuple or list yields its items, a dict its keys, a string its
  characters; \<open>None\<close> is not iterable.
\<close>

fun py_iter :: "('o, 'z) py_env_scheme \<Rightarrow> 'o pyval \<Rightarrow> exn + 'o pyval list" where
  "py_iter env (PyTuple vs) = Inr vs"
| "py_iter env (PyDict kvs) = Inr (map (PyStr \<circ> fst) kvs)"
| "py_iter env (PyStr s) = Inr (map (\<lambda>c. PyStr [c]) s)"
| "py_iter env (Opaque x) = (case iter_opaque env x of Inl e \<Rightarrow> Inl (External e) | Inr vs \<Rightarrow> Inr vs)"
| "py_iter env PyNone = Inl (TypeError ''NoneType object is not iterable'')"

definition unpack_error :: "nat \<Rightarrow> 'o pyval list \<Rightarrow> exn" where
  "unpack_error n vs =
     (if length vs < n then ValueError ''not enough values to unpack''
      else ValueError ''too many values to unpack'')"

text \<open>\<^verbatim>\<open>a, b = v\<close>: a ValueError unless \<open>v\<close> yields exactly two items.\<close>

definition unpack2 :: "('o, 'z) py_env_scheme \<Rightarrow> 'o pyval \<Rightarrow> exn + 'o pyval \<times> 'o pyval" where
  "unpack2 env v =
     (case py_iter env v of
        Inl e \<Rightarrow> Inl e
      | Inr vs \<Rightarrow> (case vs of [a, b] \<Rightarrow> Inr (a, b) | _ \<Rightarrow> Inl (unpack_error 2 vs)))"

definition unpack3 ::
  "('o, 'z) py_env_scheme \<Rightarrow> 'o pyval \<Rightarrow> exn + 'o pyval \<times> 'o pyval \<times> 'o pyval" where
  "unpack3 env v =
     (case py_iter env v of
        Inl e \<Rightarrow> Inl e
      | Inr vs \<Rightarrow> (case vs of [a, b, c] \<Rightarrow> Inr (a, b, c) | _ \<Rightarrow> Inl (unpack_error 3 vs)))"

definition unpack5 ::
  "('o, 'z) py_env_scheme \<Rightarrow> 'o pyval \<Rightarrow>
     exn + 'o pyval \<times> 'o pyval \<times> 'o pyval \<times> 'o pyval \<times> 'o pyval" where
  "unpack5 env v =
     (case py_iter env v of
        Inl e \<Rightarrow> Inl e
      | Inr vs \<Rightarrow>
          (case vs of [a, b, c, d, e] \<Rightarrow> Inr (a, b, c, d, e) | _ \<Rightarrow> Inl (unpack_error 5 vs)))"

text \<open>\<^verbatim>\<open>d[k] = v\<close> on a dict: an existing key keeps its place, a new key goes last.\<close>

fun dict_set :: "(string \<times> 'v) list \<Rightarrow> string \<Rightarrow> 'v \<Rightarrow> (string \<times> 'v) list" where
  "dict_set [] k v = [(k, v)]"
| "dict_set ((k', v') # d) k v = (if k' = k then (k, v) # d else (k', v') # dict_set d k v)"

definition dict_keys :: "(string \<times> 'v) list \<Rightarrow> string list" where
  "dict_keys d = map fst d"

text \<open>\<^verbatim>\<open>d[k]\<close> on a dict: a KeyError for a missing key.\<close>

definition dict_getitem :: "(string \<times> 'v) list \<Rightarrow> string \<Rightarrow> exn + 'v" where
  "dict_getitem d k = (case map_of d k of None \<Rightarrow> Inl (KeyError k) | Some v \<Rightarrow> Inr v)"

text \<open>\<^verbatim>\<open>v[k]\<close> with a string key, on any value.\<close>

fun py_getitem :: "('o, 'z) py_env_scheme \<Rightarrow> 'o pyval \<Rightarrow> string \<Rightarrow> exn + 'o pyval" where
  "py_getitem env (PyDict d) k = dict_getitem d k"
| "py_getitem env (Opaque x) k =
     (case getitem_opaque env x k of Inl e \<Rightarrow> Inl (External e) | Inr v \<Rightarrow> Inr v)"
| "py_getitem env (PyTuple vs) k = Inl (TypeError ''indices must be integers or slices, not str'')"
| "py_getitem env (PyStr s) k = Inl (TypeError ''indices must be integers or slices, not str'')"
| "py_getitem env PyNone k = Inl (TypeError ''NoneType object is not subscriptable'')"

text \<open>
  \<^verbatim>\<open>obj.name(...)\<close> for a method of a class outside the two files: only an opaque object has
  it, the attribute lookup on anything else raises.
\<close>

definition method_call ::
  "'ev \<Rightarrow> 'o pyval \<Rightarrow> string \<Rightarrow> ('o \<Rightarrow> 'w \<Rightarrow> (exn + 'a) \<times> 'w) \<Rightarrow> ('w, 'ev, 'a) prog" where
  "method_call ev obj name f =
     (case obj of Opaque x \<Rightarrow> call ev (f x) | _ \<Rightarrow> py_raise (AttributeError name))"

section \<open>pypots/imputation/usgan/core.py\<close>

text \<open>
  \<open>BackboneUSGAN\<close> is built by \<open>_USGAN.__init__\<close> from a module outside the file. Calling
  \<open>self.backbone\<close> is the parameter \<open>backbone\<close>.
\<close>

record ('w, 'o) usgan_env = "'o py_env" +
  backbone :: "(string \<times> 'o pyval) list \<Rightarrow> string \<Rightarrow> bool \<Rightarrow> 'w \<Rightarrow> (exn + 'o pyval) \<times> 'w"

datatype 'o usgan_event =
  BackboneCall "(string \<times> 'o pyval) list" string bool

definition call_backbone ::
  "('w, 'o) usgan_env \<Rightarrow> (string \<times> 'o pyval) list \<Rightarrow> string \<Rightarrow> bool \<Rightarrow> ('w, 'o usgan_event, 'o pyval) prog" where
  "call_backbone env inputs training_object training =
     call (BackboneCall inputs training_object training) (backbone env inputs training_object training)"

definition forward ::
  "('w, 'o) usgan_env \<Rightarrow> (string \<times> 'o pyval) list \<Rightarrow> string \<Rightarrow> bool \<Rightarrow>
     ('w, 'o usgan_event, (string \<times> 'o pyval) list) prog" where
  \<open>forward env inputs training_object training =
     (if training_object \<notin> set [''generator'', ''discriminator'']
      then py_raise (AssertionError ''training_object should be "generator" or "discriminator"'')
      else
        py_bind
          (if training then
             py_bind
               (if training_object = ''discriminator'' then
                  py_bind (call_backbone env inputs training_object training) (\<lambda>out.
                  py_bind (lift_result (unpack2 env out)) (\<lambda>(imputed_data, discrimination_loss).
                  py_return (imputed_data, discrimination_loss)))
                else
                  py_bind (call_backbone env inputs training_object training) (\<lambda>out.
                  py_bind (lift_result (unpack2 env out)) (\<lambda>(imputed_data, generation_loss).
                  py_return (imputed_data, generation_loss))))
               (\<lambda>(imputed_data, loss). py_return (imputed_data, dict_set [] ''loss'' loss))
           else
             py_bind (call_backbone env inputs training_object training) (\<lambda>imputed_data.
             py_return (imputed_data, [])))
          (\<lambda>(imputed_data, results). py_return (dict_set results ''imputed_data'' imputed_data)))\<close>

section \<open>pypots/imputation/saits/model.py\<close>

subsection \<open>The object, the events, the code outside the file\<close>

text \<open>The three messages the file logs with \<^verbatim>\<open>logger.warning\<close>, with the values they format.\<close>

datatype warning =
    DModelMismatch int int int
  | DModelReset int int int
  | ImputeDeprecated

text \<open>
  \<open>SAITS\<close> extends \<open>BaseNNImputer\<close>, a class outside the file. Of the attributes the base
  class owns, the file reads \<open>batch_size\<close>, \<open>num_workers\<close> and \<open>best_model_dict\<close>; the others
  are \<open>other_attrs\<close>.
\<close>

record ('b, 'o) BaseNNImputer =
  batch_size :: int
  num_workers :: int
  best_model_dict :: "'o pyval"
  other_attrs :: 'b

text \<open>
  The attributes \<open>SAITS.__init__\<close> assigns. A Python float is the abstract type \<open>'f\<close>: the
  file only stores and passes it on. \<open>customized_loss_func\<close> and \<open>optimizer\<close> are \<open>None\<close>
  until lines 209 and 212 assign them.
\<close>

record ('b, 'o, 'f) SAITS = "('b, 'o) BaseNNImputer" +
  n_steps :: int
  n_features :: int
  n_layers :: int
  d_model :: int
  d_ffn :: int
  n_heads :: int
  d_k :: int
  d_v :: int
  dropout :: 'f
  attn_dropout :: 'f
  diagonal_attention_mask :: bool
  ORT_weight :: int
  MIT_weight :: int
  model :: "'o pyval"
  customized_loss_func :: "'o pyval option"
  optimizer :: "'o pyval option"

text \<open>One event per logger message and per call into code outside the file, with its arguments.\<close>

datatype ('o, 'f) saits_event =
    Warning warning
  | Call_BaseNNImputer_init int int "int option" int "'o pyval" "string option" "string option"
  | Call_SAITS_module int int int int int int int int 'f 'f bool int int
  | Call_print_model_size
  | Call_send_model_to_given_device
  | Call_model_parameters "'o pyval"
  | Call_init_optimizer 'o "'o pyval"
  | Call_DatasetForSAITS "'o pyval" bool bool string
  | Call_BaseDataset "'o pyval" bool bool string
  | Call_DataLoader 'o int bool int
  | Call_check_X_ori_in_val_set "'o pyval"
  | Call_train_model "'o pyval" "'o pyval"
  | Call_load_state_dict "'o pyval" "'o pyval"
  | Call_model_eval "'o pyval"
  | Call_auto_save_model_if_necessary bool
  | No_grad_enter
  | No_grad_exit
  | Call_send_data_to_given_device "'o pyval"
  | Call_model_forward "'o pyval" "(string \<times> 'o pyval) list" bool bool
  | Call_tensor_cpu "'o pyval"
  | Call_tensor_detach "'o pyval"
  | Call_tensor_numpy "'o pyval"
  | Call_torch_cat "'o pyval list"
  | Call_np_concatenate "'o pyval list"

text \<open>
  The code outside the file that the file calls, as parameters: the base class's constructor
  and its methods (which take \<open>self\<close> and may change it), the \<open>_SAITS\<close> module, the dataset
  and loader classes, \<open>check_X_ori_in_val_set\<close>, the optimizer, and the tensor library.
  Each runs in the world and raises an exception or returns a value.
\<close>

record ('w, 'o, 'f, 'b) saits_env = "'o py_env" +
  BaseNNImputer_init ::
    "int \<Rightarrow> int \<Rightarrow> int option \<Rightarrow> int \<Rightarrow> 'o pyval \<Rightarrow> string option \<Rightarrow> string option \<Rightarrow>
       'w \<Rightarrow> (exn + ('b, 'o) BaseNNImputer) \<times> 'w"
  SAITS_module ::
    "int \<Rightarrow> int \<Rightarrow> int \<Rightarrow> int \<Rightarrow> int \<Rightarrow> int \<Rightarrow> int \<Rightarrow> int \<Rightarrow> 'f \<Rightarrow> 'f \<Rightarrow> bool \<Rightarrow> int \<Rightarrow> int \<Rightarrow>
       'w \<Rightarrow> (exn + 'o) \<times> 'w"
  print_model_size :: "('b, 'o, 'f) SAITS \<Rightarrow> 'w \<Rightarrow> (exn + ('b, 'o, 'f) SAITS) \<times> 'w"
  send_model_to_given_device :: "('b, 'o, 'f) SAITS \<Rightarrow> 'w \<Rightarrow> (exn + ('b, 'o, 'f) SAITS) \<times> 'w"
  send_data_to_given_device :: "('b, 'o, 'f) SAITS \<Rightarrow> 'o pyval \<Rightarrow> 'w \<Rightarrow> (exn + 'o pyval) \<times> 'w"
  train_model ::
    "('b, 'o, 'f) SAITS \<Rightarrow> 'o pyval \<Rightarrow> 'o pyval \<Rightarrow> 'w \<Rightarrow> (exn + ('b, 'o, 'f) SAITS) \<times> 'w"
  auto_save_model_if_necessary ::
    "('b, 'o, 'f) SAITS \<Rightarrow> bool \<Rightarrow> 'w \<Rightarrow> (exn + ('b, 'o, 'f) SAITS) \<times> 'w"
  DatasetForSAITS :: "'o pyval \<Rightarrow> bool \<Rightarrow> bool \<Rightarrow> string \<Rightarrow> 'w \<Rightarrow> (exn + 'o) \<times> 'w"
  BaseDataset :: "'o pyval \<Rightarrow> bool \<Rightarrow> bool \<Rightarrow> string \<Rightarrow> 'w \<Rightarrow> (exn + 'o) \<times> 'w"
  DataLoader :: "'o \<Rightarrow> int \<Rightarrow> bool \<Rightarrow> int \<Rightarrow> 'w \<Rightarrow> (exn + 'o) \<times> 'w"
  check_X_ori_in_val_set :: "'o pyval \<Rightarrow> 'w \<Rightarrow> (exn + bool) \<times> 'w"
  model_parameters :: "'o \<Rightarrow> 'w \<Rightarrow> (exn + 'o pyval) \<times> 'w"
  init_optimizer :: "'o \<Rightarrow> 'o pyval \<Rightarrow> 'w \<Rightarrow> (exn + unit) \<times> 'w"
  load_state_dict :: "'o \<Rightarrow> 'o pyval \<Rightarrow> 'w \<Rightarrow> (exn + unit) \<times> 'w"
  model_eval :: "'o \<Rightarrow> 'w \<Rightarrow> (exn + unit) \<times> 'w"
  model_forward ::
    "'o \<Rightarrow> (string \<times> 'o pyval) list \<Rightarrow> bool \<Rightarrow> bool \<Rightarrow> 'w \<Rightarrow> (exn + 'o pyval) \<times> 'w"
  no_grad_enter :: "'w \<Rightarrow> 'w"
  no_grad_exit :: "'w \<Rightarrow> 'w"
  tensor_cpu :: "'o \<Rightarrow> 'w \<Rightarrow> (exn + 'o pyval) \<times> 'w"
  tensor_detach :: "'o \<Rightarrow> 'w \<Rightarrow> (exn + 'o pyval) \<times> 'w"
  tensor_numpy :: "'o \<Rightarrow> 'w \<Rightarrow> (exn + 'o pyval) \<times> 'w"
  torch_cat :: "'o pyval list \<Rightarrow> 'w \<Rightarrow> (exn + 'o pyval) \<times> 'w"
  np_concatenate :: "'o pyval list \<Rightarrow> 'w \<Rightarrow> (exn + 'o pyval) \<times> 'w"

subsection \<open>\<open>SAITS.__init__\<close>\<close>

text \<open>
  Lines 154 to 213. The thirteen assignments of lines 174 to 187 and the assignment of
  \<open>self.model\<close> are one record construction on top of what the base constructor made;
  \<open>_SAITS\<close> is called with the attributes just assigned, so with \<open>d_model\<close> as reset. A
  primed name is the constructor's argument, the plain name the attribute. In
  \<^verbatim>\<open>self.optimizer.init_optimizer(self.model.parameters())\<close> the method is looked up before
  the argument is evaluated. The constructor's result is the object.
\<close>

definition SAITS_init ::
  "('w, 'o, 'f, 'b) saits_env \<Rightarrow>
     int \<Rightarrow> int \<Rightarrow> int \<Rightarrow> int \<Rightarrow> int \<Rightarrow> int \<Rightarrow> int \<Rightarrow> int \<Rightarrow> 'f \<Rightarrow> 'f \<Rightarrow> bool \<Rightarrow> int \<Rightarrow> int \<Rightarrow>
     int \<Rightarrow> int \<Rightarrow> int option \<Rightarrow> 'o pyval \<Rightarrow> 'o pyval \<Rightarrow> int \<Rightarrow> 'o pyval \<Rightarrow>
     string option \<Rightarrow> string option \<Rightarrow>
     ('w, ('o, 'f) saits_event, ('b, 'o, 'f) SAITS) prog" where
  "SAITS_init env n_steps' n_features' n_layers' d_model' d_ffn' n_heads' d_k' d_v' dropout' attn_dropout'
       diagonal_attention_mask' ORT_weight' MIT_weight' batch_size' epochs patience
       customized_loss_func' optimizer' num_workers' device saving_path model_saving_strategy =
     py_bind
       (call (Call_BaseNNImputer_init batch_size' epochs patience num_workers' device saving_path
                model_saving_strategy)
          (BaseNNImputer_init env batch_size' epochs patience num_workers' device saving_path
             model_saving_strategy)) (\<lambda>base.
     py_bind
       (if d_model' \<noteq> n_heads' * d_k' then
          py_bind (emit (Warning (DModelMismatch d_model' n_heads' d_k'))) (\<lambda>_.
          let d_model' = n_heads' * d_k' in
          py_bind (emit (Warning (DModelReset d_model' n_heads' d_k'))) (\<lambda>_.
          py_return d_model'))
        else py_return d_model') (\<lambda>d_model'.
     py_bind
       (call (Call_SAITS_module n_layers' n_steps' n_features' d_model' d_ffn' n_heads' d_k' d_v' dropout'
                attn_dropout' diagonal_attention_mask' ORT_weight' MIT_weight')
          (SAITS_module env n_layers' n_steps' n_features' d_model' d_ffn' n_heads' d_k' d_v' dropout'
             attn_dropout' diagonal_attention_mask' ORT_weight' MIT_weight')) (\<lambda>m.
     let self = BaseNNImputer.extend base
           (SAITS.fields n_steps' n_features' n_layers' d_model' d_ffn' n_heads' d_k' d_v' dropout'
              attn_dropout' diagonal_attention_mask' ORT_weight' MIT_weight' (Opaque m) None None) in
     py_bind (call Call_print_model_size (print_model_size env self)) (\<lambda>self.
     py_bind (call Call_send_model_to_given_device (send_model_to_given_device env self)) (\<lambda>self.
     let self = self\<lparr>customized_loss_func := Some customized_loss_func'\<rparr>;
         self = self\<lparr>optimizer := Some optimizer'\<rparr> in
     py_bind
       (case optimizer' of
          Opaque opt \<Rightarrow>
            py_bind
              (method_call (Call_model_parameters (model self)) (model self) ''parameters''
                 (model_parameters env)) (\<lambda>params.
            call (Call_init_optimizer opt params) (init_optimizer env opt params))
        | _ \<Rightarrow> py_raise (AttributeError ''init_optimizer'')) (\<lambda>_.
     py_return self))))))"

subsection \<open>\<open>_assemble_input_for_training\<close>, \<open>_validating\<close>, \<open>_testing\<close>\<close>

definition assemble_input_for_training ::
  "('w, 'o, 'f, 'b) saits_env \<Rightarrow> ('b, 'o, 'f) SAITS \<Rightarrow> 'o pyval \<Rightarrow>
     ('w, ('o, 'f) saits_event, (string \<times> 'o pyval) list) prog" where
  "assemble_input_for_training env self data =
     py_bind (call (Call_send_data_to_given_device data) (send_data_to_given_device env self data)) (\<lambda>sent.
     py_bind (lift_result (unpack5 env sent)) (\<lambda>(indices, X, missing_mask, X_ori, indicating_mask).
     py_return
       [(''X'', X), (''missing_mask'', missing_mask), (''X_ori'', X_ori),
        (''indicating_mask'', indicating_mask)]))"

definition assemble_input_for_validating ::
  "('w, 'o, 'f, 'b) saits_env \<Rightarrow> ('b, 'o, 'f) SAITS \<Rightarrow> 'o pyval \<Rightarrow>
     ('w, ('o, 'f) saits_event, (string \<times> 'o pyval) list) prog" where
  "assemble_input_for_validating env self data = assemble_input_for_training env self data"

definition assemble_input_for_testing ::
  "('w, 'o, 'f, 'b) saits_env \<Rightarrow> ('b, 'o, 'f) SAITS \<Rightarrow> 'o pyval \<Rightarrow>
     ('w, ('o, 'f) saits_event, (string \<times> 'o pyval) list) prog" where
  "assemble_input_for_testing env self data =
     py_bind (call (Call_send_data_to_given_device data) (send_data_to_given_device env self data)) (\<lambda>sent.
     py_bind (lift_result (unpack3 env sent)) (\<lambda>(indices, X, missing_mask).
     py_return [(''X'', X), (''missing_mask'', missing_mask)]))"

subsection \<open>\<open>SAITS.fit\<close>\<close>

text \<open>
  Lines 245 to 281. \<open>fit\<close> returns \<open>None\<close>; what it leaves behind is the object, which the
  inherited \<open>_train_model\<close> and \<open>_auto_save_model_if_necessary\<close> may have changed.
\<close>

definition fit ::
  "('w, 'o, 'f, 'b) saits_env \<Rightarrow> ('b, 'o, 'f) SAITS \<Rightarrow> 'o pyval \<Rightarrow> 'o pyval \<Rightarrow> string \<Rightarrow>
     ('w, ('o, 'f) saits_event, ('b, 'o, 'f) SAITS) prog" where
  "fit env self train_set val_set file_type =
     py_bind
       (call (Call_DatasetForSAITS train_set False False file_type)
          (DatasetForSAITS env train_set False False file_type)) (\<lambda>training_set.
     py_bind
       (call (Call_DataLoader training_set (batch_size self) True (num_workers self))
          (DataLoader env training_set (batch_size self) True (num_workers self))) (\<lambda>training_loader.
     py_bind
       (if val_set \<noteq> PyNone then
          py_bind
            (call (Call_check_X_ori_in_val_set val_set) (check_X_ori_in_val_set env val_set)) (\<lambda>has_X_ori.
          if \<not> has_X_ori
          then py_raise (ValueError ''val_set must contain 'X_ori' for model validation.'')
          else
            py_bind
              (call (Call_DatasetForSAITS val_set True False file_type)
                 (DatasetForSAITS env val_set True False file_type)) (\<lambda>val_set.
            py_bind
              (call (Call_DataLoader val_set (batch_size self) False (num_workers self))
                 (DataLoader env val_set (batch_size self) False (num_workers self))) (\<lambda>val_loader.
            py_return (Opaque val_loader))))
        else py_return PyNone) (\<lambda>val_loader.
     py_bind
       (call (Call_train_model (Opaque training_loader) val_loader)
          (train_model env self (Opaque training_loader) val_loader)) (\<lambda>self.
     py_bind
       (method_call (Call_load_state_dict (model self) (best_model_dict self)) (model self)
          ''load_state_dict'' (\<lambda>m. load_state_dict env m (best_model_dict self))) (\<lambda>_.
     py_bind
       (method_call (Call_model_eval (model self)) (model self) ''eval'' (model_eval env)) (\<lambda>_.
     py_bind
       (call (Call_auto_save_model_if_necessary True)
          (auto_save_model_if_necessary env self True)) (\<lambda>self.
     py_return self)))))))"

subsection \<open>\<open>SAITS.predict\<close> and \<open>SAITS.impute\<close>\<close>

text \<open>\<^verbatim>\<open>with torch.no_grad():\<close> the context is left on an exception as on a normal exit.\<close>

definition with_no_grad ::
  "('w, 'o, 'f, 'b) saits_env \<Rightarrow> ('w, ('o, 'f) saits_event, 'a) prog \<Rightarrow>
     ('w, ('o, 'f) saits_event, 'a) prog" where
  "with_no_grad env m = (\<lambda>w.
     case m (no_grad_enter env w) of
       (r, w1, evs) \<Rightarrow> (r, no_grad_exit env w1, No_grad_enter # evs @ [No_grad_exit]))"

text \<open>\<^verbatim>\<open>results[key].cpu().numpy()\<close>\<close>

definition cpu_numpy_of ::
  "('w, 'o, 'f, 'b) saits_env \<Rightarrow> 'o pyval \<Rightarrow> string \<Rightarrow> ('w, ('o, 'f) saits_event, 'o pyval) prog" where
  "cpu_numpy_of env results key =
     py_bind (lift_result (py_getitem env results key)) (\<lambda>t.
     py_bind (method_call (Call_tensor_cpu t) t ''cpu'' (tensor_cpu env)) (\<lambda>t.
     method_call (Call_tensor_numpy t) t ''numpy'' (tensor_numpy env)))"

text \<open>
  The loop of lines 337 to 353 over the batches the loader yields, with the four collectors
  as the accumulator.
\<close>

fun predict_batches ::
  "('w, 'o, 'f, 'b) saits_env \<Rightarrow> ('b, 'o, 'f) SAITS \<Rightarrow> bool \<Rightarrow> bool \<Rightarrow> 'o pyval list \<Rightarrow>
     'o pyval list \<times> 'o pyval list \<times> 'o pyval list \<times> 'o pyval list \<Rightarrow>
     ('w, ('o, 'f) saits_event,
      'o pyval list \<times> 'o pyval list \<times> 'o pyval list \<times> 'o pyval list) prog" where
  "predict_batches env self diagonal_attention_mask' return_latent_vars [] collectors =
     py_return collectors"
| "predict_batches env self diagonal_attention_mask' return_latent_vars (data # rest)
       (imputation_collector, first_DMSA_attn_weights_collector,
        second_DMSA_attn_weights_collector, combining_weights_collector) =
     py_bind (assemble_input_for_testing env self data) (\<lambda>inputs.
     py_bind
       (method_call (Call_model_forward (model self) inputs diagonal_attention_mask' False)
          (model self) ''forward'' (\<lambda>m. model_forward env m inputs diagonal_attention_mask' False)) (\<lambda>results.
     py_bind (lift_result (py_getitem env results ''imputed_data'')) (\<lambda>imputed_data.
     py_bind
       (if return_latent_vars then
          py_bind (cpu_numpy_of env results ''first_DMSA_attn_weights'') (\<lambda>a.
          py_bind (cpu_numpy_of env results ''second_DMSA_attn_weights'') (\<lambda>b.
          py_bind (cpu_numpy_of env results ''combining_weights'') (\<lambda>c.
          py_return
            (first_DMSA_attn_weights_collector @ [a],
             second_DMSA_attn_weights_collector @ [b],
             combining_weights_collector @ [c]))))
        else
          py_return
            (first_DMSA_attn_weights_collector, second_DMSA_attn_weights_collector,
             combining_weights_collector)) (\<lambda>(first_collector, second_collector, combining_collector).
     predict_batches env self diagonal_attention_mask' return_latent_vars rest
       (imputation_collector @ [imputed_data], first_collector, second_collector,
        combining_collector)))))"

text \<open>
  Lines 283 to 373. The loader is iterated as the finite list of batches it yields
  (\<open>iter_opaque\<close>): a \<open>DataLoader\<close> over a dataset of known length.
\<close>

definition predict ::
  "('w, 'o, 'f, 'b) saits_env \<Rightarrow> ('b, 'o, 'f) SAITS \<Rightarrow> 'o pyval \<Rightarrow> string \<Rightarrow> bool \<Rightarrow> bool \<Rightarrow>
     ('w, ('o, 'f) saits_event, (string \<times> 'o pyval) list) prog" where
  "predict env self test_set file_type diagonal_attention_mask' return_latent_vars =
     py_bind
       (method_call (Call_model_eval (model self)) (model self) ''eval'' (model_eval env)) (\<lambda>_.
     py_bind
       (call (Call_BaseDataset test_set False False file_type)
          (BaseDataset env test_set False False file_type)) (\<lambda>test_set.
     py_bind
       (call (Call_DataLoader test_set (batch_size self) False (num_workers self))
          (DataLoader env test_set (batch_size self) False (num_workers self))) (\<lambda>test_loader.
     py_bind
       (with_no_grad env
          (py_bind (lift_result (py_iter env (Opaque test_loader))) (\<lambda>batches.
           predict_batches env self diagonal_attention_mask' return_latent_vars batches
             ([], [], [], []))))
       (\<lambda>(imputation_collector, first_DMSA_attn_weights_collector,
           second_DMSA_attn_weights_collector, combining_weights_collector).
     py_bind
       (call (Call_torch_cat imputation_collector) (torch_cat env imputation_collector)) (\<lambda>t.
     py_bind (method_call (Call_tensor_cpu t) t ''cpu'' (tensor_cpu env)) (\<lambda>t.
     py_bind (method_call (Call_tensor_detach t) t ''detach'' (tensor_detach env)) (\<lambda>t.
     py_bind (method_call (Call_tensor_numpy t) t ''numpy'' (tensor_numpy env)) (\<lambda>imputation.
     let result_dict = [(''imputation'', imputation)] in
     if return_latent_vars then
       py_bind
         (call (Call_np_concatenate first_DMSA_attn_weights_collector)
            (np_concatenate env first_DMSA_attn_weights_collector)) (\<lambda>a.
       py_bind
         (call (Call_np_concatenate second_DMSA_attn_weights_collector)
            (np_concatenate env second_DMSA_attn_weights_collector)) (\<lambda>b.
       py_bind
         (call (Call_np_concatenate combining_weights_collector)
            (np_concatenate env combining_weights_collector)) (\<lambda>c.
       let latent_var_collector =
             [(''first_DMSA_attn_weights'', a), (''second_DMSA_attn_weights'', b),
              (''combining_weights'', c)] in
       py_return (dict_set result_dict ''latent_vars'' (PyDict latent_var_collector)))))
     else py_return result_dict))))))))"

text \<open>Lines 375 to 405: the warning, then \<open>predict\<close> with its defaults, then the subscript.\<close>

definition impute ::
  "('w, 'o, 'f, 'b) saits_env \<Rightarrow> ('b, 'o, 'f) SAITS \<Rightarrow> 'o pyval \<Rightarrow> string \<Rightarrow>
     ('w, ('o, 'f) saits_event, 'o pyval) prog" where
  "impute env self X file_type =
     py_bind (emit (Warning ImputeDeprecated)) (\<lambda>_.
     py_bind (predict env self X file_type True False) (\<lambda>results_dict.
     lift_result (dict_getitem results_dict ''imputation'')))"

subsection \<open>What the inherited methods leave alone\<close>

text \<open>
  \<open>_print_model_size\<close> and \<open>_send_model_to_given_device\<close> are methods of the base class,
  outside the file, that run on the half-built object. That such a method does not
  overwrite the thirteen hyperparameter attributes is a condition on it, stated here.
\<close>

definition hyperparameters ::
  "('b, 'o, 'f) SAITS \<Rightarrow> int \<times> int \<times> int \<times> int \<times> int \<times> int \<times> int \<times> int \<times> 'f \<times> 'f \<times> bool \<times> int \<times> int" where
  "hyperparameters self =
     (n_steps self, n_features self, n_layers self, d_model self, d_ffn self, n_heads self,
      d_k self, d_v self, dropout self, attn_dropout self, diagonal_attention_mask self,
      ORT_weight self, MIT_weight self)"

definition keeps_hyperparameters ::
  "(('b, 'o, 'f) SAITS \<Rightarrow> 'w \<Rightarrow> (exn + ('b, 'o, 'f) SAITS) \<times> 'w) \<Rightarrow> bool" where
  "keeps_hyperparameters method =
     (\<forall>self w self' w'. method self w = (Inr self', w') \<longrightarrow>
        hyperparameters self' = hyperparameters self)"

subsection \<open>When the code outside the file lets \<open>predict\<close> through\<close>

text \<open>
  The calls \<open>predict\<close> makes outside the file return what it goes on to use: the model
  can be put in eval mode; the test set wraps into a dataset and a loader that yields at
  least one batch; a batch moved to the device is three items; the forward pass returns
  the imputed data and the three latent tensors under their keys; tensors move to the CPU
  and convert; and non-empty lists concatenate.
\<close>

definition predict_env_ok :: "('w, 'o, 'f, 'b) saits_env \<Rightarrow> ('b, 'o, 'f) SAITS \<Rightarrow> bool" where
  "predict_env_ok env self \<longleftrightarrow>
     (\<forall>m w. \<exists>w'. model_eval env m w = (Inr (), w')) \<and>
     (\<forall>data file_type w. \<exists>dataset w'.
        BaseDataset env data False False file_type w = (Inr dataset, w') \<and>
        (\<forall>w. \<exists>loader w' batches.
           DataLoader env dataset (batch_size self) False (num_workers self) w = (Inr loader, w') \<and>
           iter_opaque env loader = Inr batches \<and> batches \<noteq> [] \<and>
           (\<forall>data \<in> set batches. \<forall>w. \<exists>indices X missing_mask w'.
              send_data_to_given_device env self data w =
                (Inr (PyTuple [indices, X, missing_mask]), w')))) \<and>
     (\<forall>m inputs diagonal_attention_mask' w. \<exists>results w' imputed_data a b c.
        model_forward env m inputs diagonal_attention_mask' False w = (Inr results, w') \<and>
        py_getitem env results ''imputed_data'' = Inr imputed_data \<and>
        py_getitem env results ''first_DMSA_attn_weights'' = Inr (Opaque a) \<and>
        py_getitem env results ''second_DMSA_attn_weights'' = Inr (Opaque b) \<and>
        py_getitem env results ''combining_weights'' = Inr (Opaque c)) \<and>
     (\<forall>t w. \<exists>t' w'. tensor_cpu env t w = (Inr (Opaque t'), w')) \<and>
     (\<forall>t w. \<exists>t' w'. tensor_detach env t w = (Inr (Opaque t'), w')) \<and>
     (\<forall>t w. \<exists>a w'. tensor_numpy env t w = (Inr a, w')) \<and>
     (\<forall>ts w. ts \<noteq> [] \<longrightarrow> (\<exists>t w'. torch_cat env ts w = (Inr (Opaque t), w'))) \<and>
     (\<forall>ts w. ts \<noteq> [] \<longrightarrow> (\<exists>a w'. np_concatenate env ts w = (Inr a, w')))"

section \<open>Concrete environments\<close>

text \<open>
  A backbone for the concrete instances below: when training it returns the pair of the
  imputed data and a loss that depends on the training object, otherwise the imputed data
  alone. The world counts the calls.
\<close>

definition demo_usgan_env :: "(nat, nat) usgan_env" where
  "demo_usgan_env =
     \<lparr>iter_opaque = (\<lambda>_. Inl (TypeError ''object is not iterable'')),
      getitem_opaque = (\<lambda>_ _. Inl (TypeError ''object is not subscriptable'')),
      backbone = (\<lambda>inputs training_object training w.
        (if training
         then Inr (PyTuple [Opaque 7, Opaque (if training_object = ''discriminator'' then 1 else 2)])
         else Inr (Opaque 7), Suc w))\<rparr>"

text \<open>
  An environment for \<open>SAITS\<close> in which the calls outside the file return: the world counts
  the calls that change it, training records a best model state, the loader \<open>21\<close> yields
  two batches of three items, \<open>check_X_ori_in_val_set\<close> looks for the key in a dict,
  concatenation refuses an empty list, and the loader's constructor refuses a batch size
  that is not positive with a ValueError.
\<close>

definition demo_saits_env :: "(nat, nat, nat, unit) saits_env" where
  "demo_saits_env =
     \<lparr>iter_opaque = (\<lambda>x. if x = 21
        then Inr [PyTuple [Opaque 1, Opaque 2, Opaque 3], PyTuple [Opaque 4, Opaque 5, Opaque 6]]
        else Inl (TypeError ''object is not iterable'')),
      getitem_opaque = (\<lambda>_ _. Inl (TypeError ''object is not subscriptable'')),
      BaseNNImputer_init = (\<lambda>batch_size' epochs patience num_workers' device saving_path strategy w.
        (Inr \<lparr>batch_size = batch_size', num_workers = num_workers', best_model_dict = PyNone,
              other_attrs = ()\<rparr>, Suc w)),
      SAITS_module = (\<lambda>_ _ _ _ _ _ _ _ _ _ _ _ _ w. (Inr 100, Suc w)),
      print_model_size = (\<lambda>self w. (Inr self, Suc w)),
      send_model_to_given_device = (\<lambda>self w. (Inr self, Suc w)),
      send_data_to_given_device = (\<lambda>self data w. (Inr data, Suc w)),
      train_model = (\<lambda>self training_loader val_loader w.
        (Inr (self\<lparr>best_model_dict := Opaque 55\<rparr>), Suc w)),
      auto_save_model_if_necessary = (\<lambda>self confirm_saving w. (Inr self, Suc w)),
      DatasetForSAITS = (\<lambda>data return_X_ori return_labels file_type w. (Inr 10, Suc w)),
      BaseDataset = (\<lambda>data return_X_ori return_labels file_type w. (Inr 11, Suc w)),
      DataLoader = (\<lambda>dataset batch_size' shuffle num_workers' w.
        (if batch_size' \<le> 0
         then Inl (ValueError ''batch_size should be a positive integer value'')
         else Inr (dataset + 10), Suc w)),
      check_X_ori_in_val_set = (\<lambda>val_set w.
        (case val_set of
           PyDict d \<Rightarrow> Inr (''X_ori'' \<in> set (dict_keys d))
         | _ \<Rightarrow> Inl (TypeError ''val_set must be a str or a Python dictionary.''), Suc w)),
      model_parameters = (\<lambda>m w. (Inr (Opaque 101), Suc w)),
      init_optimizer = (\<lambda>opt params w. (Inr (), Suc w)),
      load_state_dict = (\<lambda>m state_dict w. (Inr (), Suc w)),
      model_eval = (\<lambda>m w. (Inr (), Suc w)),
      model_forward = (\<lambda>m inputs attention_mask training w.
        (Inr (PyDict [(''imputed_data'', Opaque 30), (''first_DMSA_attn_weights'', Opaque 31),
                      (''second_DMSA_attn_weights'', Opaque 32), (''combining_weights'', Opaque 33)]),
         Suc w)),
      no_grad_enter = (\<lambda>w. w),
      no_grad_exit = (\<lambda>w. w),
      tensor_cpu = (\<lambda>t w. (Inr (Opaque t), w)),
      tensor_detach = (\<lambda>t w. (Inr (Opaque t), w)),
      tensor_numpy = (\<lambda>t w. (Inr (Opaque t), w)),
      torch_cat = (\<lambda>ts w.
        (case ts of
           [] \<Rightarrow> Inl (OtherException ''RuntimeError'' ''expected a non-empty list of Tensors'')
         | _ # _ \<Rightarrow> Inr (Opaque 40), Suc w)),
      np_concatenate = (\<lambda>ts w.
        (case ts of
           [] \<Rightarrow> Inl (ValueError ''need at least one array to concatenate'')
         | t # _ \<Rightarrow> Inr t, Suc w))\<rparr>"

text \<open>An object as the constructor leaves it, for the concrete instances of \<open>fit\<close> and \<open>predict\<close>.\<close>

definition demo_self :: "(unit, nat, nat) SAITS" where
  "demo_self =
     \<lparr>batch_size = 32, num_workers = 0, best_model_dict = PyNone, other_attrs = (),
      n_steps = 48, n_features = 37, n_layers = 2, d_model = 256, d_ffn = 128, n_heads = 4,
      d_k = 64, d_v = 64, dropout = 0, attn_dropout = 0, diagonal_attention_mask = True,
      ORT_weight = 1, MIT_weight = 1, model = Opaque 100,
      customized_loss_func = Some (Opaque 7), optimizer = Some (Opaque 8)\<rparr>"

section \<open>Computations: basic laws\<close>

lemma py_bind_return [simp]: "py_bind (py_return a) f = f a"
  by (rule ext) (simp add: py_bind_def py_return_def split: prod.splits)

lemma py_bind_raise [simp]: "py_bind (py_raise e) f = py_raise e"
  by (rule ext) (simp add: py_bind_def py_raise_def)

lemma lift_result_simps [simp]:
  "lift_result (Inl e) = py_raise e" "lift_result (Inr a) = py_return a"
  by (simp_all add: lift_result_def)

lemma unpack2_Inr_iff: "unpack2 env v = Inr (a, b) \<longleftrightarrow> py_iter env v = Inr [a, b]"
  by (auto simp: unpack2_def split: sum.splits list.splits)

lemma py_return_eq [simp]: "py_return a w = (r, w', evs) \<longleftrightarrow> r = Inr a \<and> w' = w \<and> evs = []"
  by (auto simp: py_return_def)

lemma py_raise_eq [simp]: "py_raise e w = (r, w', evs) \<longleftrightarrow> r = Inl e \<and> w' = w \<and> evs = []"
  by (auto simp: py_raise_def)

lemma emit_eq [simp]: "emit ev w = (r, w', evs) \<longleftrightarrow> r = Inr () \<and> w' = w \<and> evs = [ev]"
  by (auto simp: emit_def)

lemma py_bind_eq_Inr:
  "py_bind m f w = (Inr b, w2, evs) \<longleftrightarrow>
   (\<exists>a w1 e1 e2. m w = (Inr a, w1, e1) \<and> f a w1 = (Inr b, w2, e2) \<and> evs = e1 @ e2)"
  by (auto simp: py_bind_def split: prod.splits sum.splits)

lemma call_eq_Inr: "call ev f w = (Inr a, w1, evs) \<longleftrightarrow> f w = (Inr a, w1) \<and> evs = [ev]"
  by (auto simp: call_def split: prod.splits sum.splits)

lemma method_call_eq_Inr:
  "method_call ev obj name f w = (Inr a, w1, evs) \<longleftrightarrow>
   (\<exists>x. obj = Opaque x \<and> f x w = (Inr a, w1) \<and> evs = [ev])"
  by (cases obj) (auto simp: method_call_def call_eq_Inr)

lemma py_bind_eq_Inl:
  "py_bind m f w = (Inl x, w2, evs) \<longleftrightarrow>
   m w = (Inl x, w2, evs) \<or>
   (\<exists>a w1 e1 e2. m w = (Inr a, w1, e1) \<and> f a w1 = (Inl x, w2, e2) \<and> evs = e1 @ e2)"
  by (auto simp: py_bind_def split: prod.splits sum.splits)

lemma call_eq_Inl:
  "call ev f w = (Inl x, w1, evs) \<longleftrightarrow> (\<exists>e. f w = (Inl e, w1) \<and> x = External e \<and> evs = [ev])"
  by (auto simp: call_def split: prod.splits sum.splits)

lemma method_call_eq_Inl:
  "method_call ev obj name f w = (Inl x, w1, evs) \<longleftrightarrow>
   (\<exists>y e. obj = Opaque y \<and> f y w = (Inl e, w1) \<and> x = External e \<and> evs = [ev]) \<or>
   ((\<forall>y. obj \<noteq> Opaque y) \<and> x = AttributeError name \<and> w1 = w \<and> evs = [])"
  by (cases obj) (auto simp: method_call_def call_eq_Inl)

lemmas run_defs = py_bind_def call_def method_call_def py_return_def py_raise_def emit_def

section \<open>\<open>_USGAN.forward\<close>\<close>

text \<open>
  With a training object that passes the assertion, \<open>forward\<close> is one call of the backbone
  followed, when training, by the unpacking of what it returned.
\<close>

lemma forward_valid:
  assumes "training_object = ''generator'' \<or> training_object = ''discriminator''"
  shows "forward env inputs training_object training w =
    (case backbone env inputs training_object training w of
       (Inl e, w1) \<Rightarrow> (Inl (External e), w1, [BackboneCall inputs training_object training])
     | (Inr out, w1) \<Rightarrow>
         if training then
           (case unpack2 env out of
              Inl e \<Rightarrow> (Inl e, w1, [BackboneCall inputs training_object training])
            | Inr (imputed_data, loss) \<Rightarrow>
                (Inr [(''loss'', loss), (''imputed_data'', imputed_data)], w1,
                 [BackboneCall inputs training_object training]))
         else (Inr [(''imputed_data'', out)], w1, [BackboneCall inputs training_object training]))"
  using assms
  by (auto simp: forward_def call_backbone_def py_bind_def call_def py_return_def py_raise_def
      split: prod.splits sum.splits)

text \<open>
  C1. For a training object that is "generator" or "discriminator", every dict that
  \<open>forward\<close> returns has the key "imputed_data", and has the key "loss" exactly when
  \<open>training\<close> is true. \<open>forward\<close> does return a dict exactly when the backbone returns and,
  when training, what it returns unpacks into two items.
\<close>

theorem forward_result_keys:
  assumes "training_object = ''generator'' \<or> training_object = ''discriminator''"
  shows "(\<forall>results w' evs.
            forward env inputs training_object training w = (Inr results, w', evs) \<longrightarrow>
            ''imputed_data'' \<in> set (dict_keys results) \<and>
            (''loss'' \<in> set (dict_keys results) \<longleftrightarrow> training))
       \<and> ((\<exists>results w' evs. forward env inputs training_object training w = (Inr results, w', evs))
            \<longleftrightarrow>
          (\<exists>out w'. backbone env inputs training_object training w = (Inr out, w') \<and>
             (training \<longrightarrow> (\<exists>a b. py_iter env out = Inr [a, b]))))"
proof (cases "backbone env inputs training_object training w")
  case (Pair r w1)
  show ?thesis
  proof (cases r)
    case (Inl e)
    with Pair assms show ?thesis by (simp add: forward_valid)
  next
    case (Inr out)
    show ?thesis
    proof (cases training)
      case False
      with Pair Inr assms show ?thesis by (simp add: forward_valid dict_keys_def)
    next
      case True
      show ?thesis
      proof (cases "unpack2 env out")
        case (Inl e)
        then have "\<not> (\<exists>a b. py_iter env out = Inr [a, b])"
          by (auto simp: unpack2_Inr_iff [symmetric])
        with Pair Inr True Inl assms show ?thesis by (simp add: forward_valid)
      next
        case (Inr ab)
        then obtain a b where ab: "unpack2 env out = Inr (a, b)" by (cases ab) auto
        then have "py_iter env out = Inr [a, b]" by (simp add: unpack2_Inr_iff)
        with Pair \<open>r = Inr out\<close> True ab assms show ?thesis
          by (simp add: forward_valid dict_keys_def)
      qed
    qed
  qed
qed

theorem forward_result_keys_witness:
  "\<exists>results. forward demo_usgan_env [] ''generator'' True (0::nat) =
       (Inr results, 1, [BackboneCall [] ''generator'' True]) \<and>
     ''imputed_data'' \<in> set (dict_keys results) \<and> ''loss'' \<in> set (dict_keys results)"
proof -
  have valid: "''generator'' = ''generator'' \<or> ''generator'' = ''discriminator''" by simp
  have run: "forward demo_usgan_env [] ''generator'' True (0::nat) =
      (Inr [(''loss'', Opaque 2), (''imputed_data'', Opaque 7)], 1, [BackboneCall [] ''generator'' True])"
    by (simp add: forward_valid demo_usgan_env_def unpack2_def)
  from forward_result_keys [OF valid, of demo_usgan_env "[]" True 0] run show ?thesis
    by simp
qed

text \<open>
  C3. When training, with a training object that passes the assertion: if the backbone,
  called with that training object, returns a pair of imputed data and a loss (the
  discrimination loss for "discriminator", the generation loss for "generator"), then
  \<open>forward\<close> calls the backbone once with that training object and returns a dict whose
  "loss" is exactly that loss.
\<close>

theorem forward_loss_dispatch:
  assumes "training_object = ''generator'' \<or> training_object = ''discriminator''"
      and "backbone env inputs training_object True w = (Inr out, w')"
      and "py_iter env out = Inr [imputed, loss]"
  shows "\<exists>results.
           forward env inputs training_object True w =
             (Inr results, w', [BackboneCall inputs training_object True]) \<and>
           dict_getitem results ''loss'' = Inr loss"
  using assms by (simp add: forward_valid unpack2_def dict_getitem_def)

theorem forward_loss_dispatch_witness:
  "(\<exists>results.
      forward demo_usgan_env [] ''discriminator'' True (0::nat) =
        (Inr results, 1, [BackboneCall [] ''discriminator'' True]) \<and>
      dict_getitem results ''loss'' = Inr (Opaque 1))
   \<and> (\<exists>results.
      forward demo_usgan_env [] ''generator'' True (0::nat) =
        (Inr results, 1, [BackboneCall [] ''generator'' True]) \<and>
      dict_getitem results ''loss'' = Inr (Opaque 2))"
proof -
  have d: "\<exists>results.
      forward demo_usgan_env [] ''discriminator'' True (0::nat) =
        (Inr results, 1, [BackboneCall [] ''discriminator'' True]) \<and>
      dict_getitem results ''loss'' = Inr (Opaque 1)"
    by (rule forward_loss_dispatch [where imputed = "Opaque 7" and out = "PyTuple [Opaque 7, Opaque 1]"])
       (simp_all add: demo_usgan_env_def)
  have g: "\<exists>results.
      forward demo_usgan_env [] ''generator'' True (0::nat) =
        (Inr results, 1, [BackboneCall [] ''generator'' True]) \<and>
      dict_getitem results ''loss'' = Inr (Opaque 2)"
    by (rule forward_loss_dispatch [where imputed = "Opaque 7" and out = "PyTuple [Opaque 7, Opaque 2]"])
       (simp_all add: demo_usgan_env_def)
  from d g show ?thesis by blast
qed

text \<open>
  C4. For every inputs dict, every training flag and every backbone: when the training
  object is neither "generator" nor "discriminator", \<open>forward\<close> raises the AssertionError,
  with no event emitted (the backbone is not called) and the world as it was.
\<close>

theorem forward_asserts_training_object:
  "training_object \<noteq> ''generator'' \<Longrightarrow> training_object \<noteq> ''discriminator'' \<Longrightarrow>
   forward env inputs training_object training w =
     (Inl (AssertionError ''training_object should be \"generator\" or \"discriminator\"''), w, [])"
  by (simp add: forward_def py_raise_def)

theorem forward_asserts_training_object_witness:
  "forward demo_usgan_env [(''X'', Opaque 3)] ''critic'' True (0::nat) =
     (Inl (AssertionError ''training_object should be \"generator\" or \"discriminator\"''), 0, [])"
  using forward_asserts_training_object [of "''critic''" demo_usgan_env "[(''X'', Opaque 3)]" True 0]
  by simp

text \<open>
  C10. With a training object that passes the assertion: if the backbone, called with the
  same inputs, training object and training flag, returns its imputed data (as the first of
  a pair when training, alone otherwise), then \<open>forward\<close> calls the backbone once with these
  three arguments and returns a dict whose "imputed_data" is exactly that value.
\<close>

theorem forward_imputed_data_from_backbone:
  assumes "training_object = ''generator'' \<or> training_object = ''discriminator''"
      and "backbone env inputs training_object training w = (Inr out, w')"
      and "if training then \<exists>loss. py_iter env out = Inr [imputed, loss] else imputed = out"
  shows "\<exists>results.
           forward env inputs training_object training w =
             (Inr results, w', [BackboneCall inputs training_object training]) \<and>
           dict_getitem results ''imputed_data'' = Inr imputed"
  using assms by (cases training) (auto simp: forward_valid unpack2_def dict_getitem_def)

theorem forward_imputed_data_from_backbone_witness:
  "\<exists>results.
      forward demo_usgan_env [] ''generator'' False (4::nat) =
        (Inr results, 5, [BackboneCall [] ''generator'' False]) \<and>
      dict_getitem results ''imputed_data'' = Inr (Opaque 7)"
  by (rule forward_imputed_data_from_backbone [where out = "Opaque 7"])
     (simp_all add: demo_usgan_env_def)

section \<open>\<open>SAITS.__init__\<close>\<close>

text \<open>What a returning run of the constructor has done, step by step.\<close>

lemma SAITS_init_returns:
  assumes "SAITS_init env n_steps' n_features' n_layers' d_model' d_ffn' n_heads' d_k' d_v'
             dropout' attn_dropout' diagonal_attention_mask' ORT_weight' MIT_weight' batch_size'
             epochs patience customized_loss_func' optimizer' num_workers' device saving_path
             model_saving_strategy w = (Inr self, w', evs)"
  shows "\<exists>base w0 m w1 s1 w2 s2 w3 rest.
           BaseNNImputer_init env batch_size' epochs patience num_workers' device saving_path
             model_saving_strategy w = (Inr base, w0) \<and>
           SAITS_module env n_layers' n_steps' n_features' (n_heads' * d_k') d_ffn' n_heads' d_k' d_v'
             dropout' attn_dropout' diagonal_attention_mask' ORT_weight' MIT_weight' w0 = (Inr m, w1) \<and>
           print_model_size env
             (BaseNNImputer.extend base
                (SAITS.fields n_steps' n_features' n_layers' (n_heads' * d_k') d_ffn' n_heads' d_k'
                   d_v' dropout' attn_dropout' diagonal_attention_mask' ORT_weight' MIT_weight'
                   (Opaque m) None None)) w1 = (Inr s1, w2) \<and>
           send_model_to_given_device env s1 w2 = (Inr s2, w3) \<and>
           self = s2\<lparr>customized_loss_func := Some customized_loss_func',
                     optimizer := Some optimizer'\<rparr> \<and>
           evs =
             Call_BaseNNImputer_init batch_size' epochs patience num_workers' device saving_path
               model_saving_strategy #
             (if d_model' \<noteq> n_heads' * d_k'
              then [Warning (DModelMismatch d_model' n_heads' d_k'),
                    Warning (DModelReset (n_heads' * d_k') n_heads' d_k')]
              else []) @
             Call_SAITS_module n_layers' n_steps' n_features' (n_heads' * d_k') d_ffn' n_heads' d_k'
               d_v' dropout' attn_dropout' diagonal_attention_mask' ORT_weight' MIT_weight' #
             Call_print_model_size # Call_send_model_to_given_device # rest"
proof (cases "d_model' = n_heads' * d_k'")
  case True
  with assms show ?thesis
    by (simp add: SAITS_init_def py_bind_eq_Inr call_eq_Inr Let_def) blast
next
  case False
  with assms show ?thesis
    by (simp add: SAITS_init_def py_bind_eq_Inr call_eq_Inr Let_def) blast
qed


lemma keeps_hyperparametersD:
  "keeps_hyperparameters method \<Longrightarrow> method self w = (Inr self', w') \<Longrightarrow>
   hyperparameters self' = hyperparameters self"
  by (auto simp: keeps_hyperparameters_def)

lemma hyperparameters_constructed:
  "hyperparameters
     (BaseNNImputer.extend base
        (SAITS.fields a1 a2 a3 a4 a5 a6 a7 a8 a9 a10 a11 a12 a13 m c opt)) =
   (a1, a2, a3, a4, a5, a6, a7, a8, a9, a10, a11, a12, a13)"
  by (simp add: hyperparameters_def BaseNNImputer.defs SAITS.defs)

lemma hyperparameters_late_attributes:
  "hyperparameters (self\<lparr>customized_loss_func := c, optimizer := opt\<rparr>) = hyperparameters self"
  by (simp add: hyperparameters_def)

lemma SAITS_init_hyperparameters:
  assumes "keeps_hyperparameters (print_model_size env)"
      and "keeps_hyperparameters (send_model_to_given_device env)"
      and "SAITS_init env n_steps' n_features' n_layers' d_model' d_ffn' n_heads' d_k' d_v'
             dropout' attn_dropout' diagonal_attention_mask' ORT_weight' MIT_weight' batch_size'
             epochs patience customized_loss_func' optimizer' num_workers' device saving_path
             model_saving_strategy w = (Inr self, w', evs)"
  shows "hyperparameters self =
           (n_steps', n_features', n_layers', n_heads' * d_k', d_ffn', n_heads', d_k', d_v',
            dropout', attn_dropout', diagonal_attention_mask', ORT_weight', MIT_weight')"
proof -
  from SAITS_init_returns [OF assms(3)] obtain base m w1 s1 w2 s2 w3 where
    printed: "print_model_size env
             (BaseNNImputer.extend base
                (SAITS.fields n_steps' n_features' n_layers' (n_heads' * d_k') d_ffn' n_heads' d_k'
                   d_v' dropout' attn_dropout' diagonal_attention_mask' ORT_weight' MIT_weight'
                   (Opaque m) None None)) w1 = (Inr s1, w2)" and
    sent: "send_model_to_given_device env s1 w2 = (Inr s2, w3)" and
    self: "self = s2\<lparr>customized_loss_func := Some customized_loss_func',
                     optimizer := Some optimizer'\<rparr>"
    by blast
  have "hyperparameters self = hyperparameters s2"
    by (simp only: self hyperparameters_late_attributes)
  also have "\<dots> = hyperparameters s1"
    by (rule keeps_hyperparametersD [OF assms(2) sent])
  also have "\<dots> = (n_steps', n_features', n_layers', n_heads' * d_k', d_ffn', n_heads', d_k', d_v',
            dropout', attn_dropout', diagonal_attention_mask', ORT_weight', MIT_weight')"
    by (simp only: keeps_hyperparametersD [OF assms(1) printed] hyperparameters_constructed)
  finally show ?thesis .
qed

lemma SAITS_init_outcome:
  "fst (SAITS_init env n_steps' n_features' n_layers' d_model' d_ffn' n_heads' d_k' d_v'
          dropout' attn_dropout' diagonal_attention_mask' ORT_weight' MIT_weight' batch_size'
          epochs patience customized_loss_func' optimizer' num_workers' device saving_path
          model_saving_strategy w) =
   fst (SAITS_init env n_steps' n_features' n_layers' (n_heads' * d_k') d_ffn' n_heads' d_k' d_v'
          dropout' attn_dropout' diagonal_attention_mask' ORT_weight' MIT_weight' batch_size'
          epochs patience customized_loss_func' optimizer' num_workers' device saving_path
          model_saving_strategy w) \<and>
   fst (snd (SAITS_init env n_steps' n_features' n_layers' d_model' d_ffn' n_heads' d_k' d_v'
          dropout' attn_dropout' diagonal_attention_mask' ORT_weight' MIT_weight' batch_size'
          epochs patience customized_loss_func' optimizer' num_workers' device saving_path
          model_saving_strategy w)) =
   fst (snd (SAITS_init env n_steps' n_features' n_layers' (n_heads' * d_k') d_ffn' n_heads' d_k' d_v'
          dropout' attn_dropout' diagonal_attention_mask' ORT_weight' MIT_weight' batch_size'
          epochs patience customized_loss_func' optimizer' num_workers' device saving_path
          model_saving_strategy w))"
proof (cases "d_model' = n_heads' * d_k'")
  case True
  then show ?thesis by simp
next
  case False
  then show ?thesis
    by (simp add: SAITS_init_def py_bind_def emit_def py_return_def Let_def
        split: prod.splits sum.splits)
qed


text \<open>
  C2. Provided the two inherited methods leave the hyperparameter attributes alone: whenever
  \<open>SAITS.__init__\<close> returns, the attribute \<open>d_model\<close> is \<open>n_heads * d_k\<close> (of the arguments
  and of the attributes), and the events are the base constructor, then the two warnings
  exactly when the argument \<open>d_model\<close> differed, then the construction of \<open>_SAITS\<close> with
  \<open>d_model = n_heads * d_k\<close>. For every environment, the outcome (the exception or the
  object) and the world are those of the call with \<open>d_model = n_heads * d_k\<close>: a differing
  \<open>d_model\<close> makes the constructor raise nothing of its own.
\<close>

theorem SAITS_init_resets_d_model:
  assumes "keeps_hyperparameters (print_model_size env)"
      and "keeps_hyperparameters (send_model_to_given_device env)"
  shows "(\<forall>self w' evs.
            SAITS_init env n_steps' n_features' n_layers' d_model' d_ffn' n_heads' d_k' d_v'
              dropout' attn_dropout' diagonal_attention_mask' ORT_weight' MIT_weight' batch_size'
              epochs patience customized_loss_func' optimizer' num_workers' device saving_path
              model_saving_strategy w = (Inr self, w', evs) \<longrightarrow>
            d_model self = n_heads' * d_k' \<and> d_model self = n_heads self * d_k self \<and>
            (\<exists>rest. evs =
               Call_BaseNNImputer_init batch_size' epochs patience num_workers' device saving_path
                 model_saving_strategy #
               (if d_model' \<noteq> n_heads' * d_k'
                then [Warning (DModelMismatch d_model' n_heads' d_k'),
                      Warning (DModelReset (n_heads' * d_k') n_heads' d_k')]
                else []) @
               Call_SAITS_module n_layers' n_steps' n_features' (n_heads' * d_k') d_ffn' n_heads'
                 d_k' d_v' dropout' attn_dropout' diagonal_attention_mask' ORT_weight' MIT_weight' #
               rest))
       \<and> fst (SAITS_init env n_steps' n_features' n_layers' d_model' d_ffn' n_heads' d_k' d_v'
                dropout' attn_dropout' diagonal_attention_mask' ORT_weight' MIT_weight' batch_size'
                epochs patience customized_loss_func' optimizer' num_workers' device saving_path
                model_saving_strategy w) =
           fst (SAITS_init env n_steps' n_features' n_layers' (n_heads' * d_k') d_ffn' n_heads' d_k'
                d_v' dropout' attn_dropout' diagonal_attention_mask' ORT_weight' MIT_weight'
                batch_size' epochs patience customized_loss_func' optimizer' num_workers' device
                saving_path model_saving_strategy w)
       \<and> fst (snd (SAITS_init env n_steps' n_features' n_layers' d_model' d_ffn' n_heads' d_k' d_v'
                dropout' attn_dropout' diagonal_attention_mask' ORT_weight' MIT_weight' batch_size'
                epochs patience customized_loss_func' optimizer' num_workers' device saving_path
                model_saving_strategy w)) =
           fst (snd (SAITS_init env n_steps' n_features' n_layers' (n_heads' * d_k') d_ffn' n_heads'
                d_k' d_v' dropout' attn_dropout' diagonal_attention_mask' ORT_weight' MIT_weight'
                batch_size' epochs patience customized_loss_func' optimizer' num_workers' device
                saving_path model_saving_strategy w))"
proof (intro conjI allI impI)
  fix self w' evs
  assume ret: "SAITS_init env n_steps' n_features' n_layers' d_model' d_ffn' n_heads' d_k' d_v'
              dropout' attn_dropout' diagonal_attention_mask' ORT_weight' MIT_weight' batch_size'
              epochs patience customized_loss_func' optimizer' num_workers' device saving_path
              model_saving_strategy w = (Inr self, w', evs)"
  from SAITS_init_hyperparameters [OF assms ret]
  show "d_model self = n_heads' * d_k'" and "d_model self = n_heads self * d_k self"
    by (simp_all add: hyperparameters_def)
  from SAITS_init_returns [OF ret]
  show "\<exists>rest. evs =
               Call_BaseNNImputer_init batch_size' epochs patience num_workers' device saving_path
                 model_saving_strategy #
               (if d_model' \<noteq> n_heads' * d_k'
                then [Warning (DModelMismatch d_model' n_heads' d_k'),
                      Warning (DModelReset (n_heads' * d_k') n_heads' d_k')]
                else []) @
               Call_SAITS_module n_layers' n_steps' n_features' (n_heads' * d_k') d_ffn' n_heads'
                 d_k' d_v' dropout' attn_dropout' diagonal_attention_mask' ORT_weight' MIT_weight' #
               rest"
    by blast
next
  show "fst (SAITS_init env n_steps' n_features' n_layers' d_model' d_ffn' n_heads' d_k' d_v'
                dropout' attn_dropout' diagonal_attention_mask' ORT_weight' MIT_weight' batch_size'
                epochs patience customized_loss_func' optimizer' num_workers' device saving_path
                model_saving_strategy w) =
           fst (SAITS_init env n_steps' n_features' n_layers' (n_heads' * d_k') d_ffn' n_heads' d_k'
                d_v' dropout' attn_dropout' diagonal_attention_mask' ORT_weight' MIT_weight'
                batch_size' epochs patience customized_loss_func' optimizer' num_workers' device
                saving_path model_saving_strategy w)"
    by (rule conjunct1 [OF SAITS_init_outcome])
next
  show "fst (snd (SAITS_init env n_steps' n_features' n_layers' d_model' d_ffn' n_heads' d_k' d_v'
                dropout' attn_dropout' diagonal_attention_mask' ORT_weight' MIT_weight' batch_size'
                epochs patience customized_loss_func' optimizer' num_workers' device saving_path
                model_saving_strategy w)) =
           fst (snd (SAITS_init env n_steps' n_features' n_layers' (n_heads' * d_k') d_ffn' n_heads'
                d_k' d_v' dropout' attn_dropout' diagonal_attention_mask' ORT_weight' MIT_weight'
                batch_size' epochs patience customized_loss_func' optimizer' num_workers' device
                saving_path model_saving_strategy w))"
    by (rule conjunct2 [OF SAITS_init_outcome])
qed

lemma demo_keeps_hyperparameters:
  "keeps_hyperparameters (print_model_size demo_saits_env)"
  "keeps_hyperparameters (send_model_to_given_device demo_saits_env)"
  by (simp_all add: keeps_hyperparameters_def demo_saits_env_def)

lemma demo_init_mismatch:
  "SAITS_init demo_saits_env 48 37 2 100 128 4 64 64 0 0 True 1 1 32 100 None (Opaque 7) (Opaque 8)
       0 PyNone None (Some ''best'') (0::nat) =
     (Inr demo_self, 6,
      [Call_BaseNNImputer_init 32 100 None 0 PyNone None (Some ''best''),
       Warning (DModelMismatch 100 4 64),
       Warning (DModelReset 256 4 64),
       Call_SAITS_module 2 48 37 256 128 4 64 64 0 0 True 1 1,
       Call_print_model_size,
       Call_send_model_to_given_device,
       Call_model_parameters (Opaque 100),
       Call_init_optimizer 8 (Opaque 101)])"
  by (simp add: SAITS_init_def demo_saits_env_def demo_self_def run_defs Let_def
      BaseNNImputer.defs SAITS.defs)

theorem SAITS_init_resets_d_model_witness:
  "SAITS_init demo_saits_env 48 37 2 100 128 4 64 64 0 0 True 1 1 32 100 None (Opaque 7) (Opaque 8)
       0 PyNone None (Some ''best'') (0::nat) =
     (Inr demo_self, 6,
      [Call_BaseNNImputer_init 32 100 None 0 PyNone None (Some ''best''),
       Warning (DModelMismatch 100 4 64),
       Warning (DModelReset 256 4 64),
       Call_SAITS_module 2 48 37 256 128 4 64 64 0 0 True 1 1,
       Call_print_model_size,
       Call_send_model_to_given_device,
       Call_model_parameters (Opaque 100),
       Call_init_optimizer 8 (Opaque 101)])
   \<and> d_model demo_self = 4 * 64 \<and> d_model demo_self = n_heads demo_self * d_k demo_self"
  using SAITS_init_resets_d_model [OF demo_keeps_hyperparameters,
      of 48 37 2 100 128 4 64 64 0 0 True 1 1 32 100 None "Opaque 7" "Opaque 8" 0 PyNone None
        "Some ''best''" 0]
    demo_init_mismatch
  by simp

text \<open>
  C9. Provided the two inherited methods leave the hyperparameter attributes alone: whenever
  \<open>SAITS.__init__\<close> returns, each of \<open>n_steps\<close>, \<open>n_features\<close>, \<open>n_layers\<close>, \<open>d_ffn\<close>,
  \<open>n_heads\<close>, \<open>d_k\<close>, \<open>d_v\<close>, \<open>dropout\<close>, \<open>attn_dropout\<close>, \<open>diagonal_attention_mask\<close>,
  \<open>ORT_weight\<close> and \<open>MIT_weight\<close> is the argument of the same name.
\<close>

theorem SAITS_init_stores_hyperparameters:
  assumes "keeps_hyperparameters (print_model_size env)"
      and "keeps_hyperparameters (send_model_to_given_device env)"
      and "SAITS_init env n_steps' n_features' n_layers' d_model' d_ffn' n_heads' d_k' d_v'
             dropout' attn_dropout' diagonal_attention_mask' ORT_weight' MIT_weight' batch_size'
             epochs patience customized_loss_func' optimizer' num_workers' device saving_path
             model_saving_strategy w = (Inr self, w', evs)"
  shows "n_steps self = n_steps' \<and> n_features self = n_features' \<and> n_layers self = n_layers' \<and>
         d_ffn self = d_ffn' \<and> n_heads self = n_heads' \<and> d_k self = d_k' \<and> d_v self = d_v' \<and>
         dropout self = dropout' \<and> attn_dropout self = attn_dropout' \<and>
         diagonal_attention_mask self = diagonal_attention_mask' \<and>
         ORT_weight self = ORT_weight' \<and> MIT_weight self = MIT_weight'"
  using SAITS_init_hyperparameters [OF assms] by (simp add: hyperparameters_def)

lemma demo_init_consistent:
  "SAITS_init demo_saits_env 24 10 3 512 256 8 64 32 5 6 False 2 3 16 50 (Some 5) (Opaque 7)
       (Opaque 8) 4 (PyStr ''cpu'') (Some ''runs'') None (0::nat) =
     (Inr \<lparr>batch_size = 16, num_workers = 4, best_model_dict = PyNone, other_attrs = (),
           n_steps = 24, n_features = 10, n_layers = 3, d_model = 512, d_ffn = 256, n_heads = 8,
           d_k = 64, d_v = 32, dropout = 5, attn_dropout = 6, diagonal_attention_mask = False,
           ORT_weight = 2, MIT_weight = 3, model = Opaque 100,
           customized_loss_func = Some (Opaque 7), optimizer = Some (Opaque 8)\<rparr>, 6,
      [Call_BaseNNImputer_init 16 50 (Some 5) 4 (PyStr ''cpu'') (Some ''runs'') None,
       Call_SAITS_module 3 24 10 512 256 8 64 32 5 6 False 2 3,
       Call_print_model_size,
       Call_send_model_to_given_device,
       Call_model_parameters (Opaque 100),
       Call_init_optimizer 8 (Opaque 101)])"
  by (simp add: SAITS_init_def demo_saits_env_def run_defs Let_def BaseNNImputer.defs SAITS.defs)

theorem SAITS_init_stores_hyperparameters_witness:
  "\<exists>self :: (unit, nat, nat) SAITS.
     n_steps self = 24 \<and> n_features self = 10 \<and> n_layers self = 3 \<and>
     d_ffn self = 256 \<and> n_heads self = 8 \<and> d_k self = 64 \<and> d_v self = 32 \<and>
     dropout self = 5 \<and> attn_dropout self = 6 \<and> diagonal_attention_mask self = False \<and>
     ORT_weight self = 2 \<and> MIT_weight self = 3 \<and> d_model self = 512 \<and>
     fst (SAITS_init demo_saits_env 24 10 3 512 256 8 64 32 5 6 False 2 3 16 50 (Some 5) (Opaque 7)
       (Opaque 8) 4 (PyStr ''cpu'') (Some ''runs'') None (0::nat)) = Inr self"
  using SAITS_init_stores_hyperparameters [OF demo_keeps_hyperparameters demo_init_consistent]
    demo_init_consistent
  by simp

section \<open>\<open>SAITS.fit\<close>\<close>

text \<open>
  The only ValueError \<open>fit\<close> raises by a statement of its own is the one of line 264; what
  a run with \<open>val_set\<close> \<open>None\<close> calls.
\<close>

lemma fit_own_ValueError:
  assumes "fit env self train_set val_set file_type w = (Inl (ValueError msg), w', evs)"
  shows "msg = ''val_set must contain 'X_ori' for model validation.'' \<and> val_set \<noteq> PyNone \<and>
         (\<exists>training_set w1 training_loader w2.
            DatasetForSAITS env train_set False False file_type w = (Inr training_set, w1) \<and>
            DataLoader env training_set (batch_size self) True (num_workers self) w1 =
              (Inr training_loader, w2) \<and>
            check_X_ori_in_val_set env val_set w2 = (Inr False, w') \<and>
            evs =
              [Call_DatasetForSAITS train_set False False file_type,
               Call_DataLoader training_set (batch_size self) True (num_workers self),
               Call_check_X_ori_in_val_set val_set])"
  using assms
  by (auto simp: fit_def py_bind_eq_Inl py_bind_eq_Inr call_eq_Inl call_eq_Inr method_call_eq_Inl
      split: if_splits)

lemma fit_line_264:
  assumes "DatasetForSAITS env train_set False False file_type w = (Inr training_set, w1)"
      and "DataLoader env training_set (batch_size self) True (num_workers self) w1 =
             (Inr training_loader, w2)"
      and "val_set \<noteq> PyNone"
      and "check_X_ori_in_val_set env val_set w2 = (Inr False, w3)"
  shows "fit env self train_set val_set file_type w =
           (Inl (ValueError ''val_set must contain 'X_ori' for model validation.''), w3,
            [Call_DatasetForSAITS train_set False False file_type,
             Call_DataLoader training_set (batch_size self) True (num_workers self),
             Call_check_X_ori_in_val_set val_set])"
  using assms by (simp add: fit_def run_defs)

lemma fit_ValueError_origin:
  assumes "fit env self train_set val_set file_type w = (Inl e, w', evs)" and "is_ValueError e"
  shows "e = ValueError ''val_set must contain 'X_ori' for model validation.'' \<or>
         (\<exists>e'. e = External e' \<and> is_ValueError e')"
proof (cases e)
  case (ValueError msg)
  with assms(1) fit_own_ValueError [of env self train_set val_set file_type w msg w' evs]
  show ?thesis by simp
next
  case (External e')
  with assms(2) show ?thesis by simp
qed (use assms(2) in simp_all)

lemma fit_without_val_set_events:
  "\<forall>v. Call_check_X_ori_in_val_set v \<notin>
         set (snd (snd (fit env self train_set PyNone file_type w)))"
  by (auto simp: fit_def run_defs split: prod.splits sum.splits pyval.splits)

lemma fit_without_val_set_trains:
  assumes "DatasetForSAITS env train_set False False file_type w = (Inr training_set, w1)"
      and "DataLoader env training_set (batch_size self) True (num_workers self) w1 =
             (Inr training_loader, w2)"
  shows "\<exists>rest. snd (snd (fit env self train_set PyNone file_type w)) =
           Call_DatasetForSAITS train_set False False file_type #
           Call_DataLoader training_set (batch_size self) True (num_workers self) #
           Call_train_model (Opaque training_loader) PyNone # rest"
  using assms
  by (auto simp: fit_def run_defs split: prod.splits sum.splits pyval.splits)

text \<open>
  C5. \<open>fit\<close> itself raises a ValueError, the one of line 264, exactly when the training
  dataset and loader are built, a \<open>val_set\<close> is given and \<open>check_X_ori_in_val_set\<close> says it
  has no 'X_ori'; it is then raised right after the check, with nothing else called. Any
  other ValueError that leaves \<open>fit\<close> comes out of a call outside the file. With \<open>val_set\<close>
  \<open>None\<close> the check is never called, and once the training dataset and loader are built
  \<open>_train_model\<close> is called with \<open>None\<close> as the validation loader.
\<close>

theorem fit_val_set_check:
  "((\<exists>w' evs. fit env self train_set val_set file_type w = (Inl (ValueError msg), w', evs)) \<longleftrightarrow>
      msg = ''val_set must contain 'X_ori' for model validation.'' \<and> val_set \<noteq> PyNone \<and>
      (\<exists>training_set w1 training_loader w2 w3.
         DatasetForSAITS env train_set False False file_type w = (Inr training_set, w1) \<and>
         DataLoader env training_set (batch_size self) True (num_workers self) w1 =
           (Inr training_loader, w2) \<and>
         check_X_ori_in_val_set env val_set w2 = (Inr False, w3)))
   \<and> (\<forall>training_set w1 training_loader w2 w3.
         val_set \<noteq> PyNone \<and>
         DatasetForSAITS env train_set False False file_type w = (Inr training_set, w1) \<and>
         DataLoader env training_set (batch_size self) True (num_workers self) w1 =
           (Inr training_loader, w2) \<and>
         check_X_ori_in_val_set env val_set w2 = (Inr False, w3) \<longrightarrow>
         fit env self train_set val_set file_type w =
           (Inl (ValueError ''val_set must contain 'X_ori' for model validation.''), w3,
            [Call_DatasetForSAITS train_set False False file_type,
             Call_DataLoader training_set (batch_size self) True (num_workers self),
             Call_check_X_ori_in_val_set val_set]))
   \<and> (\<forall>e w' evs.
         fit env self train_set val_set file_type w = (Inl e, w', evs) \<and> is_ValueError e \<longrightarrow>
         e = ValueError ''val_set must contain 'X_ori' for model validation.'' \<or>
         (\<exists>e'. e = External e' \<and> is_ValueError e'))
   \<and> (val_set = PyNone \<longrightarrow>
        (\<forall>v. Call_check_X_ori_in_val_set v \<notin>
               set (snd (snd (fit env self train_set val_set file_type w)))) \<and>
        (\<forall>training_set w1 training_loader w2.
           DatasetForSAITS env train_set False False file_type w = (Inr training_set, w1) \<and>
           DataLoader env training_set (batch_size self) True (num_workers self) w1 =
             (Inr training_loader, w2) \<longrightarrow>
           (\<exists>rest. snd (snd (fit env self train_set val_set file_type w)) =
              Call_DatasetForSAITS train_set False False file_type #
              Call_DataLoader training_set (batch_size self) True (num_workers self) #
              Call_train_model (Opaque training_loader) PyNone # rest)))"
proof (intro conjI)
  show "(\<exists>w' evs. fit env self train_set val_set file_type w = (Inl (ValueError msg), w', evs)) \<longleftrightarrow>
      msg = ''val_set must contain 'X_ori' for model validation.'' \<and> val_set \<noteq> PyNone \<and>
      (\<exists>training_set w1 training_loader w2 w3.
         DatasetForSAITS env train_set False False file_type w = (Inr training_set, w1) \<and>
         DataLoader env training_set (batch_size self) True (num_workers self) w1 =
           (Inr training_loader, w2) \<and>
         check_X_ori_in_val_set env val_set w2 = (Inr False, w3))"
  proof
    assume "\<exists>w' evs. fit env self train_set val_set file_type w = (Inl (ValueError msg), w', evs)"
    then obtain w' evs where
      "fit env self train_set val_set file_type w = (Inl (ValueError msg), w', evs)"
      by blast
    from fit_own_ValueError [OF this]
    show "msg = ''val_set must contain 'X_ori' for model validation.'' \<and> val_set \<noteq> PyNone \<and>
      (\<exists>training_set w1 training_loader w2 w3.
         DatasetForSAITS env train_set False False file_type w = (Inr training_set, w1) \<and>
         DataLoader env training_set (batch_size self) True (num_workers self) w1 =
           (Inr training_loader, w2) \<and>
         check_X_ori_in_val_set env val_set w2 = (Inr False, w3))"
      by blast
  next
    assume "msg = ''val_set must contain 'X_ori' for model validation.'' \<and> val_set \<noteq> PyNone \<and>
      (\<exists>training_set w1 training_loader w2 w3.
         DatasetForSAITS env train_set False False file_type w = (Inr training_set, w1) \<and>
         DataLoader env training_set (batch_size self) True (num_workers self) w1 =
           (Inr training_loader, w2) \<and>
         check_X_ori_in_val_set env val_set w2 = (Inr False, w3))"
    then obtain training_set w1 training_loader w2 w3 where
      msg: "msg = ''val_set must contain 'X_ori' for model validation.''" and
      given: "val_set \<noteq> PyNone" and
      ts: "DatasetForSAITS env train_set False False file_type w = (Inr training_set, w1)" and
      tl: "DataLoader env training_set (batch_size self) True (num_workers self) w1 =
             (Inr training_loader, w2)" and
      chk: "check_X_ori_in_val_set env val_set w2 = (Inr False, w3)"
      by blast
    from fit_line_264 [OF ts tl given chk] msg
    show "\<exists>w' evs. fit env self train_set val_set file_type w = (Inl (ValueError msg), w', evs)"
      by blast
  qed
next
  show "\<forall>training_set w1 training_loader w2 w3.
         val_set \<noteq> PyNone \<and>
         DatasetForSAITS env train_set False False file_type w = (Inr training_set, w1) \<and>
         DataLoader env training_set (batch_size self) True (num_workers self) w1 =
           (Inr training_loader, w2) \<and>
         check_X_ori_in_val_set env val_set w2 = (Inr False, w3) \<longrightarrow>
         fit env self train_set val_set file_type w =
           (Inl (ValueError ''val_set must contain 'X_ori' for model validation.''), w3,
            [Call_DatasetForSAITS train_set False False file_type,
             Call_DataLoader training_set (batch_size self) True (num_workers self),
             Call_check_X_ori_in_val_set val_set])"
  proof (intro allI impI, elim conjE)
    fix training_set w1 training_loader w2 w3
    assume "val_set \<noteq> PyNone"
      and "DatasetForSAITS env train_set False False file_type w = (Inr training_set, w1)"
      and "DataLoader env training_set (batch_size self) True (num_workers self) w1 =
             (Inr training_loader, w2)"
      and "check_X_ori_in_val_set env val_set w2 = (Inr False, w3)"
    then show "fit env self train_set val_set file_type w =
           (Inl (ValueError ''val_set must contain 'X_ori' for model validation.''), w3,
            [Call_DatasetForSAITS train_set False False file_type,
             Call_DataLoader training_set (batch_size self) True (num_workers self),
             Call_check_X_ori_in_val_set val_set])"
      by (intro fit_line_264)
  qed
next
  show "\<forall>e w' evs.
         fit env self train_set val_set file_type w = (Inl e, w', evs) \<and> is_ValueError e \<longrightarrow>
         e = ValueError ''val_set must contain 'X_ori' for model validation.'' \<or>
         (\<exists>e'. e = External e' \<and> is_ValueError e')"
  proof (intro allI impI, elim conjE)
    fix e w' evs
    assume "fit env self train_set val_set file_type w = (Inl e, w', evs)" and "is_ValueError e"
    then show "e = ValueError ''val_set must contain 'X_ori' for model validation.'' \<or>
         (\<exists>e'. e = External e' \<and> is_ValueError e')"
      by (rule fit_ValueError_origin)
  qed
next
  show "val_set = PyNone \<longrightarrow>
        (\<forall>v. Call_check_X_ori_in_val_set v \<notin>
               set (snd (snd (fit env self train_set val_set file_type w)))) \<and>
        (\<forall>training_set w1 training_loader w2.
           DatasetForSAITS env train_set False False file_type w = (Inr training_set, w1) \<and>
           DataLoader env training_set (batch_size self) True (num_workers self) w1 =
             (Inr training_loader, w2) \<longrightarrow>
           (\<exists>rest. snd (snd (fit env self train_set val_set file_type w)) =
              Call_DatasetForSAITS train_set False False file_type #
              Call_DataLoader training_set (batch_size self) True (num_workers self) #
              Call_train_model (Opaque training_loader) PyNone # rest))"
  proof (intro impI conjI allI; (elim conjE)?)
    fix v
    assume "val_set = PyNone"
    then show "Call_check_X_ori_in_val_set v \<notin>
               set (snd (snd (fit env self train_set val_set file_type w)))"
      using fit_without_val_set_events [of env self train_set file_type w] by simp
  next
    fix training_set w1 training_loader w2
    assume "val_set = PyNone"
      and "DatasetForSAITS env train_set False False file_type w = (Inr training_set, w1)"
      and "DataLoader env training_set (batch_size self) True (num_workers self) w1 =
             (Inr training_loader, w2)"
    then show "\<exists>rest. snd (snd (fit env self train_set val_set file_type w)) =
              Call_DatasetForSAITS train_set False False file_type #
              Call_DataLoader training_set (batch_size self) True (num_workers self) #
              Call_train_model (Opaque training_loader) PyNone # rest"
      using fit_without_val_set_trains [of env train_set file_type w training_set w1 self
          training_loader w2]
      by simp
  qed
qed

theorem fit_val_set_check_witness:
  "fit demo_saits_env demo_self (PyDict [(''X'', Opaque 1)]) (PyDict [(''X'', Opaque 2)]) ''h5py''
       (0::nat) =
     (Inl (ValueError ''val_set must contain 'X_ori' for model validation.''), 3,
      [Call_DatasetForSAITS (PyDict [(''X'', Opaque 1)]) False False ''h5py'',
       Call_DataLoader 10 32 True 0,
       Call_check_X_ori_in_val_set (PyDict [(''X'', Opaque 2)])])"
proof -
  have ts: "DatasetForSAITS demo_saits_env (PyDict [(''X'', Opaque 1)]) False False ''h5py'' (0::nat) =
      (Inr 10, 1)"
    by (simp add: demo_saits_env_def)
  have tl: "DataLoader demo_saits_env 10 (batch_size demo_self) True (num_workers demo_self) (1::nat) =
      (Inr 20, 2)"
    by (simp add: demo_saits_env_def demo_self_def)
  have chk: "check_X_ori_in_val_set demo_saits_env (PyDict [(''X'', Opaque 2)]) (2::nat) = (Inr False, 3)"
    by (simp add: demo_saits_env_def dict_keys_def)
  have given: "PyDict [(''X'', Opaque 2)] \<noteq> (PyNone :: nat pyval)"
    by simp
  from fit_val_set_check
    [of demo_saits_env demo_self "PyDict [(''X'', Opaque 1)]" "PyDict [(''X'', Opaque 2)]"
      "''h5py''" 0 "''val_set must contain 'X_ori' for model validation.''"]
  have "\<forall>training_set w1 training_loader w2 w3.
         PyDict [(''X'', Opaque 2)] \<noteq> (PyNone :: nat pyval) \<and>
         DatasetForSAITS demo_saits_env (PyDict [(''X'', Opaque 1)]) False False ''h5py'' (0::nat) =
           (Inr training_set, w1) \<and>
         DataLoader demo_saits_env training_set (batch_size demo_self) True (num_workers demo_self) w1 =
           (Inr training_loader, w2) \<and>
         check_X_ori_in_val_set demo_saits_env (PyDict [(''X'', Opaque 2)]) w2 = (Inr False, w3) \<longrightarrow>
         fit demo_saits_env demo_self (PyDict [(''X'', Opaque 1)]) (PyDict [(''X'', Opaque 2)]) ''h5py'' 0 =
           (Inl (ValueError ''val_set must contain 'X_ori' for model validation.''), w3,
            [Call_DatasetForSAITS (PyDict [(''X'', Opaque 1)]) False False ''h5py'',
             Call_DataLoader training_set (batch_size demo_self) True (num_workers demo_self),
             Call_check_X_ori_in_val_set (PyDict [(''X'', Opaque 2)])])"
    by blast
  with given ts tl chk
  have "fit demo_saits_env demo_self (PyDict [(''X'', Opaque 1)]) (PyDict [(''X'', Opaque 2)]) ''h5py'' 0 =
           (Inl (ValueError ''val_set must contain 'X_ori' for model validation.''), 3,
            [Call_DatasetForSAITS (PyDict [(''X'', Opaque 1)]) False False ''h5py'',
             Call_DataLoader 10 (batch_size demo_self) True (num_workers demo_self),
             Call_check_X_ori_in_val_set (PyDict [(''X'', Opaque 2)])])"
    by blast
  then show ?thesis by (simp add: demo_self_def)
qed

text \<open>
  A ValueError does leave \<open>fit\<close> with \<open>val_set\<close> \<open>None\<close>: with a batch size of 0 the
  loader's constructor of line 255 raises one, before line 262 looks at \<open>val_set\<close>.
\<close>

theorem fit_val_set_check_counterexample:
  "fit demo_saits_env (demo_self\<lparr>batch_size := 0\<rparr>) (PyDict [(''X'', Opaque 1)]) PyNone ''h5py''
       (0::nat) =
     (Inl (External (ValueError ''batch_size should be a positive integer value'')), 2,
      [Call_DatasetForSAITS (PyDict [(''X'', Opaque 1)]) False False ''h5py'',
       Call_DataLoader 10 0 True 0])
   \<and> is_ValueError (External (ValueError ''batch_size should be a positive integer value''))"
  by (simp add: fit_def demo_saits_env_def demo_self_def run_defs)

text \<open>
  C8. Whenever \<open>fit\<close> returns: its last four events are the return of \<open>_train_model\<close>, then
  \<open>load_state_dict\<close> on the trained object's model with that object's \<open>best_model_dict\<close>, then
  \<open>eval\<close> on the same model, then \<open>_auto_save_model_if_necessary\<close> with
  \<open>confirm_saving=True\<close>, each running in the world the one before left.
\<close>

theorem fit_freezes_best_model_then_saves:
  assumes "fit env self train_set val_set file_type w = (Inr self', w', evs)"
  shows "\<exists>before training_loader val_loader trained m w1 w2 w3 w4.
           train_model env self training_loader val_loader w1 = (Inr trained, w2) \<and>
           model trained = Opaque m \<and>
           load_state_dict env m (best_model_dict trained) w2 = (Inr (), w3) \<and>
           model_eval env m w3 = (Inr (), w4) \<and>
           auto_save_model_if_necessary env trained True w4 = (Inr self', w') \<and>
           evs = before @
             [Call_train_model training_loader val_loader,
              Call_load_state_dict (model trained) (best_model_dict trained),
              Call_model_eval (model trained),
              Call_auto_save_model_if_necessary True]"
proof -
  from assms obtain e1 e2 ev training_loader val_loader trained m w1 w2 w3 w4 where
    train: "train_model env self (Opaque training_loader) val_loader w1 = (Inr trained, w2)" and
    m: "model trained = Opaque m" and
    load: "load_state_dict env m (best_model_dict trained) w2 = (Inr (), w3)" and
    eval: "model_eval env m w3 = (Inr (), w4)" and
    save: "auto_save_model_if_necessary env trained True w4 = (Inr self', w')" and
    evs: "evs = e1 # e2 # ev @
             [Call_train_model (Opaque training_loader) val_loader,
              Call_load_state_dict (model trained) (best_model_dict trained),
              Call_model_eval (model trained),
              Call_auto_save_model_if_necessary True]"
    by (auto simp: fit_def py_bind_eq_Inr call_eq_Inr method_call_eq_Inr)
  from evs have "evs = (e1 # e2 # ev) @
             [Call_train_model (Opaque training_loader) val_loader,
              Call_load_state_dict (model trained) (best_model_dict trained),
              Call_model_eval (model trained),
              Call_auto_save_model_if_necessary True]" by simp
  with train m load eval save show ?thesis by blast
qed

lemma demo_fit:
  "fit demo_saits_env demo_self (PyDict [(''X'', Opaque 1)]) PyNone ''h5py'' (0::nat) =
     (Inr (demo_self\<lparr>best_model_dict := Opaque 55\<rparr>), 6,
      [Call_DatasetForSAITS (PyDict [(''X'', Opaque 1)]) False False ''h5py'',
       Call_DataLoader 10 32 True 0,
       Call_train_model (Opaque 20) PyNone,
       Call_load_state_dict (Opaque 100) (Opaque 55),
       Call_model_eval (Opaque 100),
       Call_auto_save_model_if_necessary True])"
  by (simp add: fit_def demo_saits_env_def demo_self_def py_bind_def call_def method_call_def py_return_def py_raise_def)

theorem fit_freezes_best_model_then_saves_witness:
  "\<exists>before training_loader val_loader trained m w1 w2 w3 w4.
     train_model demo_saits_env demo_self training_loader val_loader w1 = (Inr trained, w2) \<and>
     model trained = Opaque m \<and>
     load_state_dict demo_saits_env m (best_model_dict trained) w2 = (Inr (), w3) \<and>
     model_eval demo_saits_env m w3 = (Inr (), w4) \<and>
     auto_save_model_if_necessary demo_saits_env trained True w4 =
       (Inr (demo_self\<lparr>best_model_dict := Opaque 55\<rparr>), 6::nat) \<and>
     [Call_DatasetForSAITS (PyDict [(''X'', Opaque 1)]) False False ''h5py'' :: (nat, nat) saits_event,
      Call_DataLoader 10 32 True 0,
      Call_train_model (Opaque 20) PyNone,
      Call_load_state_dict (Opaque 100) (Opaque 55),
      Call_model_eval (Opaque 100),
      Call_auto_save_model_if_necessary True] =
     before @
       [Call_train_model training_loader val_loader,
        Call_load_state_dict (model trained) (best_model_dict trained),
        Call_model_eval (model trained),
        Call_auto_save_model_if_necessary True]"
  by (rule fit_freezes_best_model_then_saves [OF demo_fit])

section \<open>\<open>SAITS.predict\<close> and \<open>SAITS.impute\<close>\<close>

lemma with_no_grad_eq:
  "with_no_grad env m w = (r, w', evs) \<longleftrightarrow>
   (\<exists>w1 e. m (no_grad_enter env w) = (r, w1, e) \<and> w' = no_grad_exit env w1 \<and>
      evs = No_grad_enter # e @ [No_grad_exit])"
  by (auto simp: with_no_grad_def split: prod.splits)

lemma predict_result_shape:
  assumes "predict env self test_set file_type diagonal_attention_mask' return_latent_vars w =
             (Inr result_dict, w', evs)"
  shows "\<exists>imputation.
           if return_latent_vars then
             (\<exists>first_collector second_collector combining_collector a b c w1 w2 w3.
                np_concatenate env first_collector w1 = (Inr a, w2) \<and>
                np_concatenate env second_collector w2 = (Inr b, w3) \<and>
                np_concatenate env combining_collector w3 = (Inr c, w') \<and>
                result_dict =
                  [(''imputation'', imputation),
                   (''latent_vars'',
                    PyDict [(''first_DMSA_attn_weights'', a), (''second_DMSA_attn_weights'', b),
                            (''combining_weights'', c)])])
           else result_dict = [(''imputation'', imputation)]"
proof (cases return_latent_vars)
  case True
  with assms show ?thesis
    by (simp add: predict_def py_bind_eq_Inr call_eq_Inr method_call_eq_Inr with_no_grad_eq
        Let_def split_beta) blast
next
  case False
  with assms show ?thesis
    by (simp add: predict_def py_bind_eq_Inr call_eq_Inr method_call_eq_Inr with_no_grad_eq
        Let_def split_beta) blast
qed


lemma predict_env_okD:
  assumes "predict_env_ok env self"
  shows "\<forall>m w. \<exists>w'. model_eval env m w = (Inr (), w')"
    and "\<forall>data file_type w. \<exists>dataset w'.
        BaseDataset env data False False file_type w = (Inr dataset, w') \<and>
        (\<forall>w. \<exists>loader w' batches.
           DataLoader env dataset (batch_size self) False (num_workers self) w = (Inr loader, w') \<and>
           iter_opaque env loader = Inr batches \<and> batches \<noteq> [] \<and>
           (\<forall>data \<in> set batches. \<forall>w. \<exists>indices X missing_mask w'.
              send_data_to_given_device env self data w =
                (Inr (PyTuple [indices, X, missing_mask]), w')))"
    and "\<forall>m inputs diagonal_attention_mask' w. \<exists>results w' imputed_data a b c.
        model_forward env m inputs diagonal_attention_mask' False w = (Inr results, w') \<and>
        py_getitem env results ''imputed_data'' = Inr imputed_data \<and>
        py_getitem env results ''first_DMSA_attn_weights'' = Inr (Opaque a) \<and>
        py_getitem env results ''second_DMSA_attn_weights'' = Inr (Opaque b) \<and>
        py_getitem env results ''combining_weights'' = Inr (Opaque c)"
    and "\<forall>t w. \<exists>t' w'. tensor_cpu env t w = (Inr (Opaque t'), w')"
    and "\<forall>t w. \<exists>t' w'. tensor_detach env t w = (Inr (Opaque t'), w')"
    and "\<forall>t w. \<exists>a w'. tensor_numpy env t w = (Inr a, w')"
    and "\<forall>ts w. ts \<noteq> [] \<longrightarrow> (\<exists>t w'. torch_cat env ts w = (Inr (Opaque t), w'))"
    and "\<forall>ts w. ts \<noteq> [] \<longrightarrow> (\<exists>a w'. np_concatenate env ts w = (Inr a, w'))"
  using assms by (simp_all add: predict_env_ok_def)

lemma cpu_numpy_of_returns:
  assumes "predict_env_ok env self" and "py_getitem env results key = Inr (Opaque t)"
  shows "\<exists>a w' evs. cpu_numpy_of env results key w = (Inr a, w', evs)"
proof -
  from assms(1) obtain t' w1 where cpu: "tensor_cpu env t w = (Inr (Opaque t'), w1)"
    using predict_env_okD(4) [OF assms(1)] by blast
  from assms(1) obtain a w2 where numpy: "tensor_numpy env t' w1 = (Inr a, w2)"
    using predict_env_okD(6) [OF assms(1)] by blast
  from assms(2) cpu numpy show ?thesis
    by (simp add: cpu_numpy_of_def run_defs)
qed

lemma assemble_input_for_testing_returns:
  assumes "\<forall>w. \<exists>indices X missing_mask w'.
             send_data_to_given_device env self data w =
               (Inr (PyTuple [indices, X, missing_mask]), w')"
  shows "\<exists>inputs w' evs. assemble_input_for_testing env self data w = (Inr inputs, w', evs)"
proof -
  from assms obtain indices X missing_mask w1 where
    "send_data_to_given_device env self data w = (Inr (PyTuple [indices, X, missing_mask]), w1)"
    by blast
  then show ?thesis
    by (simp add: assemble_input_for_testing_def unpack3_def run_defs)
qed

lemma predict_batches_returns:
  assumes ok: "predict_env_ok env self" and m: "model self = Opaque m"
      and sends: "\<forall>data \<in> set batches. \<forall>w. \<exists>indices X missing_mask w'.
              send_data_to_given_device env self data w =
                (Inr (PyTuple [indices, X, missing_mask]), w')"
  shows "\<exists>ic fc sc cc w' evs.
           predict_batches env self diagonal_attention_mask' return_latent_vars batches (ic0, fc0, sc0, cc0) w =
             (Inr (ic, fc, sc, cc), w', evs) \<and>
           length ic = length ic0 + length batches \<and>
           (return_latent_vars \<longrightarrow>
              length fc = length fc0 + length batches \<and>
              length sc = length sc0 + length batches \<and>
              length cc = length cc0 + length batches)"
  using sends
proof (induction batches arbitrary: ic0 fc0 sc0 cc0 w)
  case Nil
  show ?case by simp
next
  case (Cons data rest)
  from Cons.prems have here: "\<forall>w. \<exists>indices X missing_mask w'.
              send_data_to_given_device env self data w =
                (Inr (PyTuple [indices, X, missing_mask]), w')"
    and later: "\<forall>data \<in> set rest. \<forall>w. \<exists>indices X missing_mask w'.
              send_data_to_given_device env self data w =
                (Inr (PyTuple [indices, X, missing_mask]), w')"
    by simp_all
  from assemble_input_for_testing_returns [OF here] obtain inputs w1 e1 where
    asm: "assemble_input_for_testing env self data w = (Inr inputs, w1, e1)" by blast
  from ok obtain results w2 imputed_data a b c where
    fwd: "model_forward env m inputs diagonal_attention_mask' False w1 = (Inr results, w2)" and
    imp: "py_getitem env results ''imputed_data'' = Inr imputed_data" and
    ka: "py_getitem env results ''first_DMSA_attn_weights'' = Inr (Opaque a)" and
    kb: "py_getitem env results ''second_DMSA_attn_weights'' = Inr (Opaque b)" and
    kc: "py_getitem env results ''combining_weights'' = Inr (Opaque c)"
    using predict_env_okD(3) [OF ok] by blast
  show ?case
  proof (cases return_latent_vars)
    case False
    from Cons.IH [OF later, of "ic0 @ [imputed_data]" fc0 sc0 cc0 w2] obtain ic fc sc cc w' evs where
      "predict_batches env self diagonal_attention_mask' return_latent_vars rest
         (ic0 @ [imputed_data], fc0, sc0, cc0) w2 = (Inr (ic, fc, sc, cc), w', evs)"
      "length ic = length (ic0 @ [imputed_data]) + length rest"
      by blast
    with asm fwd imp m False show ?thesis
      by (simp add: run_defs)
  next
    case True
    from cpu_numpy_of_returns [OF ok ka] obtain a' w3 e3 where
      ca: "cpu_numpy_of env results ''first_DMSA_attn_weights'' w2 = (Inr a', w3, e3)" by blast
    from cpu_numpy_of_returns [OF ok kb] obtain b' w4 e4 where
      cb: "cpu_numpy_of env results ''second_DMSA_attn_weights'' w3 = (Inr b', w4, e4)" by blast
    from cpu_numpy_of_returns [OF ok kc] obtain c' w5 e5 where
      cc: "cpu_numpy_of env results ''combining_weights'' w4 = (Inr c', w5, e5)" by blast
    from Cons.IH [OF later, of "ic0 @ [imputed_data]" "fc0 @ [a']" "sc0 @ [b']" "cc0 @ [c']" w5]
    obtain ic fc sc cc w' evs where
      "predict_batches env self diagonal_attention_mask' return_latent_vars rest
         (ic0 @ [imputed_data], fc0 @ [a'], sc0 @ [b'], cc0 @ [c']) w5 =
           (Inr (ic, fc, sc, cc), w', evs)"
      "length ic = length (ic0 @ [imputed_data]) + length rest"
      "length fc = length (fc0 @ [a']) + length rest"
      "length sc = length (sc0 @ [b']) + length rest"
      "length cc = length (cc0 @ [c']) + length rest"
      using True by blast
    with asm fwd imp m True ca cb cc show ?thesis
      by (simp add: run_defs)
  qed
qed

lemma predict_returns_when_ok:
  assumes ok: "predict_env_ok env self" and m: "model self = Opaque m"
  shows "\<exists>result_dict w' evs.
           predict env self test_set file_type diagonal_attention_mask' return_latent_vars w =
             (Inr result_dict, w', evs)"
proof -
  obtain w1 where ev: "model_eval env m w = (Inr (), w1)"
    using predict_env_okD(1) [OF ok] by blast
  obtain dataset w2 where
    ds: "BaseDataset env test_set False False file_type w1 = (Inr dataset, w2)" and
    loaders: "\<forall>w. \<exists>loader w' batches.
           DataLoader env dataset (batch_size self) False (num_workers self) w = (Inr loader, w') \<and>
           iter_opaque env loader = Inr batches \<and> batches \<noteq> [] \<and>
           (\<forall>data \<in> set batches. \<forall>w. \<exists>indices X missing_mask w'.
              send_data_to_given_device env self data w =
                (Inr (PyTuple [indices, X, missing_mask]), w'))"
    using predict_env_okD(2) [OF ok] by blast
  from loaders obtain loader w3 batches where
    dl: "DataLoader env dataset (batch_size self) False (num_workers self) w2 = (Inr loader, w3)" and
    it: "iter_opaque env loader = Inr batches" and ne: "batches \<noteq> []" and
    sends: "\<forall>data \<in> set batches. \<forall>w. \<exists>indices X missing_mask w'.
              send_data_to_given_device env self data w =
                (Inr (PyTuple [indices, X, missing_mask]), w')"
    by blast
  from predict_batches_returns [OF ok m sends, of diagonal_attention_mask' return_latent_vars
      "[]" "[]" "[]" "[]" "no_grad_enter env w3"]
  obtain ic fc sc cc w4 e4 where
    loop: "predict_batches env self diagonal_attention_mask' return_latent_vars batches
             ([], [], [], []) (no_grad_enter env w3) = (Inr (ic, fc, sc, cc), w4, e4)" and
    lic: "length ic = length batches" and
    lrest: "return_latent_vars \<longrightarrow>
              length fc = length batches \<and> length sc = length batches \<and> length cc = length batches"
    by auto
  from lic ne have "ic \<noteq> []" by auto
  then obtain t w5 where cat: "torch_cat env ic (no_grad_exit env w4) = (Inr (Opaque t), w5)"
    using predict_env_okD(7) [OF ok] by blast
  obtain t1 w6 where cpu: "tensor_cpu env t w5 = (Inr (Opaque t1), w6)"
    using predict_env_okD(4) [OF ok] by blast
  obtain t2 w7 where det: "tensor_detach env t1 w6 = (Inr (Opaque t2), w7)"
    using predict_env_okD(5) [OF ok] by blast
  obtain imputation w8 where num: "tensor_numpy env t2 w7 = (Inr imputation, w8)"
    using predict_env_okD(6) [OF ok] by blast
  show ?thesis
  proof (cases return_latent_vars)
    case False
    with m ev ds dl it loop cat cpu det num show ?thesis
      by (simp add: predict_def run_defs with_no_grad_def)
  next
    case True
    with lrest ne have "fc \<noteq> []" "sc \<noteq> []" "cc \<noteq> []" by auto
    from \<open>fc \<noteq> []\<close> obtain a w9 where ca: "np_concatenate env fc w8 = (Inr a, w9)"
      using predict_env_okD(8) [OF ok] by blast
    from \<open>sc \<noteq> []\<close> obtain b w10 where cb: "np_concatenate env sc w9 = (Inr b, w10)"
      using predict_env_okD(8) [OF ok] by blast
    from \<open>cc \<noteq> []\<close> obtain c w11 where cc: "np_concatenate env cc w10 = (Inr c, w11)"
      using predict_env_okD(8) [OF ok] by blast
    from True m ev ds dl it loop cat cpu det num ca cb cc show ?thesis
      by (simp add: predict_def run_defs with_no_grad_def)
  qed
qed

text \<open>
  C7. For every test set: every dict that \<open>predict\<close> returns has the key "imputation", and
  has the key "latent_vars" exactly when \<open>return_latent_vars\<close> is true; then
  "latent_vars" holds the dict of the three arrays \<open>first_DMSA_attn_weights\<close>,
  \<open>second_DMSA_attn_weights\<close> and \<open>combining_weights\<close>, each what \<open>np.concatenate\<close>
  returned for its collector. And \<open>predict\<close> does return a dict when the code outside the
  file lets it through and \<open>self.model\<close> is a module.
\<close>

theorem predict_result_keys:
  "(\<forall>result_dict w' evs.
      predict env self test_set file_type diagonal_attention_mask' return_latent_vars w =
        (Inr result_dict, w', evs) \<longrightarrow>
      ''imputation'' \<in> set (dict_keys result_dict) \<and>
      (''latent_vars'' \<in> set (dict_keys result_dict) \<longleftrightarrow> return_latent_vars) \<and>
      (return_latent_vars \<longrightarrow>
         (\<exists>first_collector second_collector combining_collector a b c w1 w2 w3.
            np_concatenate env first_collector w1 = (Inr a, w2) \<and>
            np_concatenate env second_collector w2 = (Inr b, w3) \<and>
            np_concatenate env combining_collector w3 = (Inr c, w') \<and>
            dict_getitem result_dict ''latent_vars'' =
              Inr (PyDict [(''first_DMSA_attn_weights'', a), (''second_DMSA_attn_weights'', b),
                           (''combining_weights'', c)]))))
   \<and> (predict_env_ok env self \<and> (\<exists>m. model self = Opaque m) \<longrightarrow>
        (\<exists>result_dict w' evs.
           predict env self test_set file_type diagonal_attention_mask' return_latent_vars w =
             (Inr result_dict, w', evs)))"
proof (intro conjI allI impI)
  fix result_dict w' evs
  assume ret: "predict env self test_set file_type diagonal_attention_mask' return_latent_vars w =
        (Inr result_dict, w', evs)"
  show "''imputation'' \<in> set (dict_keys result_dict)"
    using predict_result_shape [OF ret] by (auto simp: dict_keys_def split: if_splits)
  show "''latent_vars'' \<in> set (dict_keys result_dict) \<longleftrightarrow> return_latent_vars"
    using predict_result_shape [OF ret] by (auto simp: dict_keys_def split: if_splits)
  assume latent: return_latent_vars
  with predict_result_shape [OF ret] obtain imputation first_collector second_collector
      combining_collector a b c w1 w2 w3 where
    cat: "np_concatenate env first_collector w1 = (Inr a, w2)"
         "np_concatenate env second_collector w2 = (Inr b, w3)"
         "np_concatenate env combining_collector w3 = (Inr c, w')" and
    dict: "result_dict =
             [(''imputation'', imputation),
              (''latent_vars'',
               PyDict [(''first_DMSA_attn_weights'', a), (''second_DMSA_attn_weights'', b),
                       (''combining_weights'', c)])]"
    by auto
  from dict have "dict_getitem result_dict ''latent_vars'' =
      Inr (PyDict [(''first_DMSA_attn_weights'', a), (''second_DMSA_attn_weights'', b),
                   (''combining_weights'', c)])"
    by (simp add: dict_getitem_def)
  with cat show "\<exists>first_collector second_collector combining_collector a b c w1 w2 w3.
            np_concatenate env first_collector w1 = (Inr a, w2) \<and>
            np_concatenate env second_collector w2 = (Inr b, w3) \<and>
            np_concatenate env combining_collector w3 = (Inr c, w') \<and>
            dict_getitem result_dict ''latent_vars'' =
              Inr (PyDict [(''first_DMSA_attn_weights'', a), (''second_DMSA_attn_weights'', b),
                           (''combining_weights'', c)])"
    by blast
next
  assume "predict_env_ok env self \<and> (\<exists>m. model self = Opaque m)"
  then obtain m where "predict_env_ok env self" "model self = Opaque m" by blast
  then show "\<exists>result_dict w' evs.
           predict env self test_set file_type diagonal_attention_mask' return_latent_vars w =
             (Inr result_dict, w', evs)"
    by (rule predict_returns_when_ok)
qed

lemmas demo_run_defs =
  demo_saits_env_def demo_self_def run_defs with_no_grad_def cpu_numpy_of_def
  assemble_input_for_testing_def unpack3_def dict_getitem_def

lemma demo_predict_env_ok: "predict_env_ok demo_saits_env demo_self"
  by (simp add: predict_env_ok_def demo_saits_env_def demo_self_def dict_getitem_def
      neq_Nil_conv) auto

lemma demo_predict_latent:
  "predict demo_saits_env demo_self (PyDict [(''X'', Opaque 1)]) ''h5py'' True True (0::nat) =
     (Inr [(''imputation'', Opaque 40),
           (''latent_vars'',
            PyDict [(''first_DMSA_attn_weights'', Opaque 31),
                    (''second_DMSA_attn_weights'', Opaque 32),
                    (''combining_weights'', Opaque 33)])],
      11,
      [Call_model_eval (Opaque 100),
       Call_BaseDataset (PyDict [(''X'', Opaque 1)]) False False ''h5py'',
       Call_DataLoader 11 32 False 0, No_grad_enter,
       Call_send_data_to_given_device (PyTuple [Opaque 1, Opaque 2, Opaque 3]),
       Call_model_forward (Opaque 100) [(''X'', Opaque 2), (''missing_mask'', Opaque 3)] True False,
       Call_tensor_cpu (Opaque 31), Call_tensor_numpy (Opaque 31),
       Call_tensor_cpu (Opaque 32), Call_tensor_numpy (Opaque 32),
       Call_tensor_cpu (Opaque 33), Call_tensor_numpy (Opaque 33),
       Call_send_data_to_given_device (PyTuple [Opaque 4, Opaque 5, Opaque 6]),
       Call_model_forward (Opaque 100) [(''X'', Opaque 5), (''missing_mask'', Opaque 6)] True False,
       Call_tensor_cpu (Opaque 31), Call_tensor_numpy (Opaque 31),
       Call_tensor_cpu (Opaque 32), Call_tensor_numpy (Opaque 32),
       Call_tensor_cpu (Opaque 33), Call_tensor_numpy (Opaque 33), No_grad_exit,
       Call_torch_cat [Opaque 30, Opaque 30], Call_tensor_cpu (Opaque 40),
       Call_tensor_detach (Opaque 40), Call_tensor_numpy (Opaque 40),
       Call_np_concatenate [Opaque 31, Opaque 31],
       Call_np_concatenate [Opaque 32, Opaque 32],
       Call_np_concatenate [Opaque 33, Opaque 33]])"
  by (simp add: predict_def demo_run_defs)

theorem predict_result_keys_witness:
  "\<exists>result_dict.
     fst (predict demo_saits_env demo_self (PyDict [(''X'', Opaque 1)]) ''h5py'' True True (0::nat)) =
       Inr result_dict \<and>
     ''imputation'' \<in> set (dict_keys result_dict) \<and>
     ''latent_vars'' \<in> set (dict_keys result_dict) \<and>
     dict_getitem result_dict ''latent_vars'' =
       Inr (PyDict [(''first_DMSA_attn_weights'', Opaque 31),
                    (''second_DMSA_attn_weights'', Opaque 32),
                    (''combining_weights'', Opaque 33)])"
proof -
  have model: "\<exists>m. model demo_self = Opaque m"
    by (simp add: demo_self_def)
  from predict_result_keys
    [of demo_saits_env demo_self "PyDict [(''X'', Opaque 1)]" "''h5py''" True True 0]
    demo_predict_env_ok model
  obtain result_dict w' evs where
    ret: "predict demo_saits_env demo_self (PyDict [(''X'', Opaque 1)]) ''h5py'' True True (0::nat) =
            (Inr result_dict, w', evs)" and
    keys: "''imputation'' \<in> set (dict_keys result_dict)"
          "''latent_vars'' \<in> set (dict_keys result_dict)"
    by blast
  from ret demo_predict_latent have "dict_getitem result_dict ''latent_vars'' =
       Inr (PyDict [(''first_DMSA_attn_weights'', Opaque 31),
                    (''second_DMSA_attn_weights'', Opaque 32),
                    (''combining_weights'', Opaque 33)])"
    by (auto simp: dict_getitem_def)
  with ret keys show ?thesis by simp
qed

lemma predict_without_latent_vars:
  assumes "predict env self test_set file_type diagonal_attention_mask' False w =
             (Inr result_dict, w', evs)"
  shows "\<exists>imputation. result_dict = [(''imputation'', imputation)]"
  using predict_result_shape [OF assms] by simp

text \<open>
  C6. For every \<open>X\<close> and \<open>file_type\<close>, \<open>impute\<close> is \<open>predict\<close> with the mask on and no
  latent variables, followed by the subscript "imputation": the same world, the same
  events after one more warning in front, the exception of \<open>predict\<close> if it raises, and
  otherwise the value under "imputation", which is always there.
\<close>

theorem impute_is_predict_imputation:
  "impute env self X file_type w =
     (case predict env self X file_type True False w of
        (Inl e, w', evs) \<Rightarrow> (Inl e, w', Warning ImputeDeprecated # evs)
      | (Inr results_dict, w', evs) \<Rightarrow>
          (dict_getitem results_dict ''imputation'', w', Warning ImputeDeprecated # evs))
   \<and> (\<forall>results_dict w' evs.
         predict env self X file_type True False w = (Inr results_dict, w', evs) \<longrightarrow>
         (\<exists>imputation.
            dict_getitem results_dict ''imputation'' = Inr imputation \<and>
            impute env self X file_type w = (Inr imputation, w', Warning ImputeDeprecated # evs)))"
proof (cases "predict env self X file_type True False w")
  case (fields r w' evs)
  show ?thesis
  proof (cases r)
    case (Inl e)
    with fields show ?thesis
      by (simp add: impute_def py_bind_def emit_def)
  next
    case (Inr results_dict)
    with fields have ret: "predict env self X file_type True False w = (Inr results_dict, w', evs)"
      by simp
    from predict_without_latent_vars [OF ret] obtain imputation where
      "results_dict = [(''imputation'', imputation)]" ..
    with ret show ?thesis
      by (simp add: impute_def py_bind_def emit_def dict_getitem_def py_return_def)
  qed
qed

lemma demo_predict_plain:
  "predict demo_saits_env demo_self (PyDict [(''X'', Opaque 1)]) ''h5py'' True False (0::nat) =
     (Inr [(''imputation'', Opaque 40)], 8,
      [Call_model_eval (Opaque 100),
       Call_BaseDataset (PyDict [(''X'', Opaque 1)]) False False ''h5py'',
       Call_DataLoader 11 32 False 0, No_grad_enter,
       Call_send_data_to_given_device (PyTuple [Opaque 1, Opaque 2, Opaque 3]),
       Call_model_forward (Opaque 100) [(''X'', Opaque 2), (''missing_mask'', Opaque 3)] True False,
       Call_send_data_to_given_device (PyTuple [Opaque 4, Opaque 5, Opaque 6]),
       Call_model_forward (Opaque 100) [(''X'', Opaque 5), (''missing_mask'', Opaque 6)] True False,
       No_grad_exit, Call_torch_cat [Opaque 30, Opaque 30],
       Call_tensor_cpu (Opaque 40), Call_tensor_detach (Opaque 40),
       Call_tensor_numpy (Opaque 40)])"
  by (simp add: predict_def demo_run_defs)

theorem impute_is_predict_imputation_witness:
  "impute demo_saits_env demo_self (PyDict [(''X'', Opaque 1)]) ''h5py'' (0::nat) =
     (Inr (Opaque 40), 8,
      [Warning ImputeDeprecated, Call_model_eval (Opaque 100),
       Call_BaseDataset (PyDict [(''X'', Opaque 1)]) False False ''h5py'',
       Call_DataLoader 11 32 False 0, No_grad_enter,
       Call_send_data_to_given_device (PyTuple [Opaque 1, Opaque 2, Opaque 3]),
       Call_model_forward (Opaque 100) [(''X'', Opaque 2), (''missing_mask'', Opaque 3)] True False,
       Call_send_data_to_given_device (PyTuple [Opaque 4, Opaque 5, Opaque 6]),
       Call_model_forward (Opaque 100) [(''X'', Opaque 5), (''missing_mask'', Opaque 6)] True False,
       No_grad_exit, Call_torch_cat [Opaque 30, Opaque 30],
       Call_tensor_cpu (Opaque 40), Call_tensor_detach (Opaque 40),
       Call_tensor_numpy (Opaque 40)])"
  using impute_is_predict_imputation
    [of demo_saits_env demo_self "PyDict [(''X'', Opaque 1)]" "''h5py''" 0]
    demo_predict_plain
  by (simp add: dict_getitem_def)

end
